theory Spec2Isabelle
  imports Main "HOL-Library.Multiset" "HOL-Library.List_Lexorder" "HOL-Library.Char_ord"
    "HOL-Library.AList" "HOL-Library.Monad_Syntax"
begin

section \<open>Sanitizer types (cc/sanitize.go, lines 83-202)\<close>

text \<open>
  \<^verbatim>\<open>type SanitizerType int\<close> with the constants \<^verbatim>\<open>iota + 1\<close>: the type is an integer, so a
  value outside 1..9 exists and every \<^verbatim>\<open>switch\<close> on it has a \<^verbatim>\<open>default: panic(...)\<close> branch.
  A panic is the result \<open>None\<close>.
\<close>

type_synonym SanitizerType = int

definition Asan :: SanitizerType where "Asan = 1"
definition Hwasan :: SanitizerType where "Hwasan = 2"
definition tsan :: SanitizerType where "tsan = 3"
definition intOverflow :: SanitizerType where "intOverflow = 4"
definition scs :: SanitizerType where "scs = 5"
definition Fuzzer :: SanitizerType where "Fuzzer = 6"
definition Memtag_heap :: SanitizerType where "Memtag_heap = 7"
definition Memtag_stack :: SanitizerType where "Memtag_stack = 8"
definition cfi :: SanitizerType where "cfi = 9"

definition Sanitizers :: "SanitizerType list" where
  "Sanitizers = [Asan, Hwasan, tsan, intOverflow, scs, Fuzzer, Memtag_heap, Memtag_stack, cfi]"

definition variationName :: "SanitizerType \<Rightarrow> string option" where
  "variationName t =
     (if t = Asan then Some ''asan''
      else if t = Hwasan then Some ''hwasan''
      else if t = tsan then Some ''tsan''
      else if t = intOverflow then Some ''intOverflow''
      else if t = cfi then Some ''cfi''
      else if t = scs then Some ''scs''
      else if t = Memtag_heap then Some ''memtag_heap''
      else if t = Memtag_stack then Some ''memtag_stack''
      else if t = Fuzzer then Some ''fuzzer''
      else None)"

definition name :: "SanitizerType \<Rightarrow> string option" where
  "name t =
     (if t = Asan then Some ''address''
      else if t = Hwasan then Some ''hwaddress''
      else if t = Memtag_heap then Some ''memtag_heap''
      else if t = Memtag_stack then Some ''memtag_stack''
      else if t = tsan then Some ''thread''
      else if t = intOverflow then Some ''integer_overflow''
      else if t = cfi then Some ''cfi''
      else if t = scs then Some ''shadow-call-stack''
      else if t = Fuzzer then Some ''fuzzer''
      else None)"

text \<open>
  \<^verbatim>\<open>registerMutators\<close> builds a \<^verbatim>\<open>sanitizerSplitMutator\<close> for exactly these types: they are
  the modes that split the graph.
\<close>

definition splitting :: "SanitizerType \<Rightarrow> bool" where
  "splitting t \<longleftrightarrow> t \<in> {cfi, Hwasan, Asan, tsan, Fuzzer, scs}"

definition SanitizerSupported :: "SanitizerType \<Rightarrow> bool" where
  "SanitizerSupported t =
     (if t = Asan then True
      else if t = Hwasan then True
      else if t = tsan then True
      else if t = intOverflow then True
      else if t = cfi then True
      else if t = scs then True
      else if t = Fuzzer then True
      else if t = Memtag_heap then True
      else if t = Memtag_stack then True
      else False)"

definition incompatibleWithCfi :: "SanitizerType \<Rightarrow> bool" where
  "incompatibleWithCfi t \<longleftrightarrow> t = Asan \<or> t = Fuzzer \<or> t = Hwasan"

section \<open>Sanitize properties (lines 204-302)\<close>

text \<open>
  A \<^verbatim>\<open>*bool\<close> is a \<open>bool option\<close>: \<open>None\<close> is the nil pointer. \<^verbatim>\<open>Bool(p)\<close> of proptools is
  true exactly for a non-nil pointer to true. The string lists are only ever measured with
  \<^verbatim>\<open>len\<close>, appended to or reset to nil, so nil and the empty list are one value.
  The fields \<open>Fuzzer\<close>, \<open>Memtag_heap\<close> and \<open>Memtag_stack\<close> carry the suffix \<open>_prop\<close>, the
  fields of the nested struct \<open>Diag\<close> the prefix \<open>Diag_\<close>.
\<close>

definition Bool :: "bool option \<Rightarrow> bool" where
  "Bool p \<longleftrightarrow> p = Some True"

definition BoolPtr :: "bool \<Rightarrow> bool option" where
  "BoolPtr b = Some b"

record SanitizeDiag =
  Diag_Undefined :: "bool option"
  Diag_Cfi :: "bool option"
  Diag_Integer_overflow :: "bool option"
  Diag_Memtag_heap :: "bool option"
  Diag_Misc_undefined :: "string list"
  Diag_No_recover :: "string list"

record SanitizeUserProps =
  Never :: "bool option"
  Address :: "bool option"
  Thread :: "bool option"
  Hwaddress :: "bool option"
  All_undefined :: "bool option"
  Undefined :: "bool option"
  Misc_undefined :: "string list"
  Fuzzer_prop :: "bool option"
  Safestack :: "bool option"
  Cfi :: "bool option"
  Integer_overflow :: "bool option"
  Scudo :: "bool option"
  Scs :: "bool option"
  Memtag_heap_prop :: "bool option"
  Memtag_stack_prop :: "bool option"
  Writeonly :: "bool option"
  Diag :: SanitizeDiag
  Cfi_assembly_support :: "bool option"
  Recover :: "string list"
  Blocklist :: "string option"

record SanitizeProperties =
  Sanitize :: SanitizeUserProps
  SanitizerEnabled :: bool
  MinimalRuntimeDep :: bool
  BuiltinsDep :: bool
  UbsanRuntimeDep :: bool
  InSanitizerDir :: bool
  Sanitizers_prop :: "string list"
  DiagSanitizers :: "string list"

record sanitize =
  Properties :: SanitizeProperties

section \<open>Reading and writing one mode (lines 870-971)\<close>

definition getSanitizerBoolPtr :: "sanitize \<Rightarrow> SanitizerType \<Rightarrow> bool option option" where
  "getSanitizerBoolPtr sz t =
     (let s = Sanitize (Properties sz) in
      if t = Asan then Some (Address s)
      else if t = Hwasan then Some (Hwaddress s)
      else if t = tsan then Some (Thread s)
      else if t = intOverflow then Some (Integer_overflow s)
      else if t = cfi then Some (Cfi s)
      else if t = scs then Some (Scs s)
      else if t = Memtag_heap then Some (Memtag_heap_prop s)
      else if t = Memtag_stack then Some (Memtag_stack_prop s)
      else if t = Fuzzer then Some (Fuzzer_prop s)
      else None)"

definition set_Sanitize :: "(SanitizeUserProps \<Rightarrow> SanitizeUserProps) \<Rightarrow> sanitize \<Rightarrow> sanitize" where
  "set_Sanitize f sz = sz\<lparr>Properties := (Properties sz)\<lparr>Sanitize := f (Sanitize (Properties sz))\<rparr>\<rparr>"

definition SetSanitizer :: "sanitize \<Rightarrow> SanitizerType \<Rightarrow> bool \<Rightarrow> sanitize option" where
  "SetSanitizer sz t b =
     (let bPtr = (if \<not> b then None else BoolPtr b) in
      case (if t = Asan then Some (set_Sanitize (\<lambda>s. s\<lparr>Address := bPtr\<rparr>) sz)
            else if t = Hwasan then Some (set_Sanitize (\<lambda>s. s\<lparr>Hwaddress := bPtr\<rparr>) sz)
            else if t = tsan then Some (set_Sanitize (\<lambda>s. s\<lparr>Thread := bPtr\<rparr>) sz)
            else if t = intOverflow then Some (set_Sanitize (\<lambda>s. s\<lparr>Integer_overflow := bPtr\<rparr>) sz)
            else if t = cfi then Some (set_Sanitize (\<lambda>s. s\<lparr>Cfi := bPtr\<rparr>) sz)
            else if t = scs then Some (set_Sanitize (\<lambda>s. s\<lparr>Scs := bPtr\<rparr>) sz)
            else if t = Memtag_heap then Some (set_Sanitize (\<lambda>s. s\<lparr>Memtag_heap_prop := bPtr\<rparr>) sz)
            else if t = Memtag_stack then Some (set_Sanitize (\<lambda>s. s\<lparr>Memtag_stack_prop := bPtr\<rparr>) sz)
            else if t = Fuzzer then Some (set_Sanitize (\<lambda>s. s\<lparr>Fuzzer_prop := bPtr\<rparr>) sz)
            else None) of
        None \<Rightarrow> None
      | Some sz' \<Rightarrow>
          Some (if b then sz'\<lparr>Properties := (Properties sz')\<lparr>SanitizerEnabled := True\<rparr>\<rparr> else sz'))"

text \<open>The receiver of the two queries may be the nil pointer: \<open>None\<close> in the first argument.\<close>

definition isSanitizerExplicitlyDisabled :: "sanitize option \<Rightarrow> SanitizerType \<Rightarrow> bool option" where
  "isSanitizerExplicitlyDisabled szp t =
     (case szp of
        None \<Rightarrow> Some False
      | Some sz \<Rightarrow>
          (case getSanitizerBoolPtr sz t of
             None \<Rightarrow> None
           | Some sanitizerVal \<Rightarrow> Some (sanitizerVal \<noteq> None \<and> sanitizerVal = Some False)))"

definition isSanitizerEnabled :: "sanitize option \<Rightarrow> SanitizerType \<Rightarrow> bool option" where
  "isSanitizerEnabled szp t =
     (case szp of
        None \<Rightarrow> Some False
      | Some sz \<Rightarrow>
          (case getSanitizerBoolPtr sz t of
             None \<Rightarrow> None
           | Some sanitizerVal \<Rightarrow> Some (sanitizerVal \<noteq> None \<and> sanitizerVal = Some True)))"

section \<open>Minimal runtime (lines 1650-1680)\<close>

definition enableMinimalRuntime :: "sanitize \<Rightarrow> bool" where
  "enableMinimalRuntime sz =
     (let s = Sanitize (Properties sz) in
      if \<not> Bool (Address s) \<and>
         \<not> Bool (Hwaddress s) \<and>
         \<not> Bool (Fuzzer_prop s) \<and>
         (Bool (Integer_overflow s) \<or>
          length (Misc_undefined s) > 0 \<or>
          Bool (Undefined s) \<or>
          Bool (All_undefined s)) \<and>
         \<not> (Bool (Diag_Integer_overflow (Diag s)) \<or>
            Bool (Diag_Cfi (Diag s)) \<or>
            Bool (Diag_Undefined (Diag s)) \<or>
            length (Diag_Misc_undefined (Diag s)) > 0)
      then True
      else False)"

definition enableUbsanRuntime :: "sanitize \<Rightarrow> bool" where
  "enableUbsanRuntime sz =
     (let s = Sanitize (Properties sz) in
      Bool (Diag_Integer_overflow (Diag s)) \<or>
      Bool (Diag_Undefined (Diag s)) \<or>
      length (Diag_Misc_undefined (Diag s)) > 0)"

section \<open>Modules and dependency tags\<close>

text \<open>
  The aggregate of statically linked sanitized libraries (lines 1580-1593). A Go map has one
  value per key and no order of its own: it is an association list with distinct keys, whose
  order is never read except through \<^verbatim>\<open>SortedStringKeys\<close>. \<^verbatim>\<open>ImageVariantType\<close> is a string
  type. The mutex \<^verbatim>\<open>libsMapLock\<close> makes the calls of \<^verbatim>\<open>add\<close> take place one after the other;
  the model takes them in that order.
\<close>

record sanitizerStaticLibsMap =
  libsMap :: "(string \<times> (string \<times> string list) list) list"
  sanitizerType :: SanitizerType

definition newSanitizerStaticLibsMap :: "SanitizerType \<Rightarrow> sanitizerStaticLibsMap" where
  "newSanitizerStaticLibsMap t = \<lparr>libsMap = [], sanitizerType = t\<rparr>"

text \<open>
  A \<^verbatim>\<open>*cc.Module\<close>, as far as this file reads and writes it. The field \<open>sanitize\<close> is the
  pointer \<^verbatim>\<open>c.sanitize\<close>; the other fields are the results of methods declared outside this
  file (\<^verbatim>\<open>Binary()\<close>, \<^verbatim>\<open>static()\<close>, \<^verbatim>\<open>Header()\<close>, \<^verbatim>\<open>InVendor()\<close>, \<^verbatim>\<open>IsPrebuilt()\<close>,
  \<^verbatim>\<open>ExportedToMake()\<close>, \<^verbatim>\<open>Module().Name()\<close>, \<^verbatim>\<open>BaseModuleName()\<close>,
  \<^verbatim>\<open>GetImageVariantType(c)\<close>, \<^verbatim>\<open>Module().Target().Arch.ArchType.String()\<close>,
  \<^verbatim>\<open>snapshot.IsVendorProprietaryModule\<close>), the flags set by \<^verbatim>\<open>SetPreventInstall\<close> and
  \<^verbatim>\<open>SetHideFromMake\<close>, and the linker seen through the interface \<^verbatim>\<open>snapshotSanitizer\<close>
  (\<open>None\<close> when the linker does not implement it), with the calls of
  \<^verbatim>\<open>setSanitizerVariation\<close> it received.
\<close>

record Module =
  sanitize :: "sanitize option"
  Binary :: bool
  static :: bool
  Header :: bool
  InVendor :: bool
  IsPrebuilt :: bool
  ExportedToMake :: bool
  Name :: string
  BaseModuleName :: string
  ImageVariantType :: string
  ArchTypeString :: string
  IsVendorProprietaryModule :: bool
  PreventInstall :: bool
  HideFromMake :: bool
  snapshotSanitizer :: "(SanitizerType \<Rightarrow> bool) option"
  sanitizerVariations :: "(SanitizerType \<times> bool) list"

text \<open>
  A module that implements \<^verbatim>\<open>Sanitizeable\<close> (an APEX): its answer to
  \<^verbatim>\<open>IsSanitizerEnabled(config, name)\<close> and the names passed to
  \<^verbatim>\<open>AddSanitizerDependencies\<close>.
\<close>

record Sanitizeable =
  apexSanitizerEnabled :: "string \<Rightarrow> bool"
  sanitizerDependencies :: "string list"

text \<open>
  What the type assertions on \<^verbatim>\<open>ctx.Module()\<close> find: a \<^verbatim>\<open>*cc.Module\<close> (which implements
  \<^verbatim>\<open>PlatformSanitizeable\<close>, line 1578), a \<^verbatim>\<open>JniSanitizeable\<close>, a \<^verbatim>\<open>Sanitizeable\<close>, or
  none of them. The other implementation of \<^verbatim>\<open>PlatformSanitizeable\<close> lies outside this
  file.
\<close>

datatype android_Module =
  CcModule Module
  | JniSanitizeableModule
  | SanitizeableModule Sanitizeable
  | OtherModule

text \<open>
  The values of type \<^verbatim>\<open>dependencyTag\<close>: the package variables \<^verbatim>\<open>reuseObjTag\<close> and
  \<^verbatim>\<open>objDepTag\<close>, declared outside this file and only compared by equality here, and any other
  tag of the type, by its name. A dependency tag is a \<^verbatim>\<open>dependencyTag\<close>, a
  \<^verbatim>\<open>libraryDependencyTag\<close> (whose fields are not read here) or of another type.
\<close>

datatype dependencyTag = reuseObjTag | objDepTag | otherDependencyTag string

datatype DependencyTag =
  DependencyTag dependencyTag
  | LibraryDependencyTag
  | OtherTag

definition IsSanitizableDependencyTag :: "DependencyTag \<Rightarrow> bool" where
  "IsSanitizableDependencyTag tag =
     (case tag of
        DependencyTag t \<Rightarrow> t = reuseObjTag \<or> t = objDepTag
      | LibraryDependencyTag \<Rightarrow> True
      | OtherTag \<Rightarrow> False)"

subsection \<open>The methods of Module (lines 1250-1256, 1554-1576)\<close>

text \<open>A method that dereferences the nil \<^verbatim>\<open>c.sanitize\<close> panics: \<open>None\<close>.\<close>

definition SanitizeNever :: "Module \<Rightarrow> bool option" where
  "SanitizeNever c =
     (case sanitize c of
        None \<Rightarrow> None
      | Some sz \<Rightarrow> Some (Bool (Never (Sanitize (Properties sz)))))"

definition IsSanitizerExplicitlyDisabled :: "Module \<Rightarrow> SanitizerType \<Rightarrow> bool option" where
  "IsSanitizerExplicitlyDisabled c t = isSanitizerExplicitlyDisabled (sanitize c) t"

definition SanitizePropDefined :: "Module \<Rightarrow> bool" where
  "SanitizePropDefined c \<longleftrightarrow> sanitize c \<noteq> None"

definition IsSanitizerEnabled :: "Module \<Rightarrow> SanitizerType \<Rightarrow> bool option" where
  "IsSanitizerEnabled c t = isSanitizerEnabled (sanitize c) t"

definition StaticallyLinked :: "Module \<Rightarrow> bool" where
  "StaticallyLinked c = static c"

definition SetInSanitizerDir :: "Module \<Rightarrow> Module" where
  "SetInSanitizerDir c =
     (case sanitize c of
        None \<Rightarrow> c
      | Some sz \<Rightarrow> c\<lparr>sanitize := Some (sz\<lparr>Properties := (Properties sz)\<lparr>InSanitizerDir := True\<rparr>\<rparr>)\<rparr>)"

definition Module_SetSanitizer :: "Module \<Rightarrow> SanitizerType \<Rightarrow> bool \<Rightarrow> Module option" where
  "Module_SetSanitizer c t b =
     (case sanitize c of
        None \<Rightarrow> Some c
      | Some sz \<Rightarrow> do { sz' \<leftarrow> SetSanitizer sz t b; Some (c\<lparr>sanitize := Some sz'\<rparr>) })"

text \<open>
  Modelled from the spec: \<^verbatim>\<open>SetPreventInstall\<close> and \<^verbatim>\<open>SetHideFromMake\<close> are declared outside
  this file; each marks the module with the flag of its name (the variant is "marked prevent
  default install").
\<close>

definition SetPreventInstall :: "Module \<Rightarrow> Module" where
  "SetPreventInstall c = c\<lparr>PreventInstall := True\<rparr>"

definition SetHideFromMake :: "Module \<Rightarrow> Module" where
  "SetHideFromMake c = c\<lparr>HideFromMake := True\<rparr>"

section \<open>The aggregate of static libraries (lines 1595-1632)\<close>

text \<open>
  Reading a key that a Go map does not hold gives the zero value of the value type, here the
  nil slice or the nil map: \<open>mapIndex\<close>. So
  \<^verbatim>\<open>s.libsMap[image][arch] = append(s.libsMap[image][arch], name)\<close> appends to the empty list
  when \<open>arch\<close> is new.
\<close>

definition mapIndex :: "('k \<times> 'v list) list \<Rightarrow> 'k \<Rightarrow> 'v list" where
  "mapIndex m k = (case map_of m k of None \<Rightarrow> [] | Some v \<Rightarrow> v)"

definition add :: "sanitizerStaticLibsMap \<Rightarrow> Module \<Rightarrow> string \<Rightarrow> sanitizerStaticLibsMap" where
  "add s c name' =
     (let image = ImageVariantType c;
          arch = ArchTypeString c;
          m = (if map_of (libsMap s) image = None then AList.update image [] (libsMap s)
               else libsMap s)
      in s\<lparr>libsMap :=
           AList.update image
             (AList.update arch (mapIndex (mapIndex m image) arch @ [name']) (mapIndex m image))
             m\<rparr>)"

text \<open>
  \<^verbatim>\<open>android.SortedStringKeys\<close> returns the keys of a map in increasing order, \<^verbatim>\<open>sort.Strings\<close>
  sorts in increasing order, and Go compares strings byte by byte, a proper prefix first: the
  lexicographic order on character lists. \<^verbatim>\<open>strings.Join\<close> puts the separator between the
  elements.
\<close>

definition SortedStringKeys :: "(string \<times> 'v) list \<Rightarrow> string list" where
  "SortedStringKeys m = sort (map fst m)"

fun Join :: "string list \<Rightarrow> string \<Rightarrow> string" where
  "Join [] sep = []"
| "Join [x] sep = x"
| "Join (x # y # zs) sep = x @ sep @ Join (y # zs) sep"

text \<open>
  \<^verbatim>\<open>exportToMake\<close> returns the calls \<^verbatim>\<open>ctx.Strict(key, value)\<close> in the order it makes them.
  Each round of the inner loop calls \<^verbatim>\<open>variationName\<close>, which may panic. \<^verbatim>\<open>sort.Strings\<close>
  sorts the stored slice where it lies; the order of a stored list is read nowhere else.
\<close>

definition exportToMake :: "sanitizerStaticLibsMap \<Rightarrow> (string \<times> string) list option" where
  "exportToMake s =
     those (concat (map (\<lambda>image.
       let archMap = mapIndex (libsMap s) image in
       map (\<lambda>arch.
         let libs = sort (mapIndex archMap arch) in
         do {
           vn \<leftarrow> variationName (sanitizerType s);
           Some (''SOONG_'' @ vn @ ''_'' @ image @ ''_'' @ arch @ ''_STATIC_LIBRARIES'',
                 Join libs '' '')
         }) (SortedStringKeys archMap)) (SortedStringKeys (libsMap s))))"

text \<open>A run of \<^verbatim>\<open>add\<close> calls, one for each module and exported name of the list, in order.\<close>

definition addAll :: "sanitizerStaticLibsMap \<Rightarrow> (Module \<times> string) list \<Rightarrow> sanitizerStaticLibsMap" where
  "addAll s xs = foldl (\<lambda>s' (c, name'). add s' c name') s xs"

text \<open>The entry that one call of \<^verbatim>\<open>add\<close> records: image, architecture and library name.\<close>

definition entry :: "Module \<times> string \<Rightarrow> string \<times> string \<times> string" where
  "entry x = (ImageVariantType (fst x), ArchTypeString (fst x), snd x)"

text \<open>
  What an aggregate holds, read off a list of entries: the library names recorded under an
  image and an architecture, in the order of the list, and the architectures recorded under an
  image. An association list \<open>represents\<close> the entries when its keys are distinct and are the
  images of the entries, and under each image the keys are distinct, are the architectures of
  that image, and hold the names of that image and architecture.
\<close>

definition libsOf :: "(string \<times> string \<times> string) list \<Rightarrow> string \<Rightarrow> string \<Rightarrow> string list" where
  "libsOf es i a = map (\<lambda>e. snd (snd e)) (filter (\<lambda>e. fst e = i \<and> fst (snd e) = a) es)"

definition archesOf :: "(string \<times> string \<times> string) list \<Rightarrow> string \<Rightarrow> string set" where
  "archesOf es i = {a. \<exists>n. (i, a, n) \<in> set es}"

definition represents ::
  "(string \<times> (string \<times> string list) list) list \<Rightarrow> (string \<times> string \<times> string) list \<Rightarrow> bool"
where
  "represents m es \<longleftrightarrow>
     distinct (map fst m) \<and> set (map fst m) = {i. \<exists>a n. (i, a, n) \<in> set es} \<and>
     (\<forall>i. distinct (map fst (mapIndex m i)) \<and>
          set (map fst (mapIndex m i)) = archesOf es i \<and>
          (\<forall>a. mapIndex (mapIndex m i) a = libsOf es i a))"


text \<open>
  The two aggregates that \<^verbatim>\<open>cfiStaticLibs(config)\<close> and \<^verbatim>\<open>hwasanStaticLibs(config)\<close> keep in
  the configuration, each created empty on first use.
\<close>

record Config =
  cfiStaticLibs :: sanitizerStaticLibsMap
  hwasanStaticLibs :: sanitizerStaticLibsMap

definition newConfig :: Config where
  "newConfig = \<lparr>cfiStaticLibs = newSanitizerStaticLibsMap cfi,
                 hwasanStaticLibs = newSanitizerStaticLibsMap Hwasan\<rparr>"

section \<open>The split mutator (lines 989-1248)\<close>

definition needsCfiForVendorSnapshot :: "Module \<Rightarrow> bool option" where
  "needsCfiForVendorSnapshot c =
     (if IsVendorProprietaryModule c then Some False
      else if \<not> InVendor c then Some False
      else if \<not> StaticallyLinked c then Some False
      else if IsPrebuilt c then Some False
      else if \<not> SanitizerSupported cfi then Some False
      else if \<not> SanitizePropDefined c then Some False
      else do {
        never \<leftarrow> SanitizeNever c;
        if never then Some False
        else do {
          disabled \<leftarrow> IsSanitizerExplicitlyDisabled c cfi;
          Some (\<not> disabled)
        }
      })"

definition Split :: "SanitizerType \<Rightarrow> android_Module \<Rightarrow> string list option" where
  "Split sanitizer m =
     (case m of
        CcModule c \<Rightarrow>
          if SanitizePropDefined c then do {
            forced \<leftarrow> (if sanitizer = cfi then needsCfiForVendorSnapshot c else Some False);
            if forced then do { v \<leftarrow> variationName sanitizer; Some ['''', v] }
            else do {
              enabled \<leftarrow> IsSanitizerEnabled c sanitizer;
              if \<not> enabled then Some ['''']
              else if Binary c then do { v \<leftarrow> variationName sanitizer; Some [v] }
              else if StaticallyLinked c \<or> Header c then
                do { v \<leftarrow> variationName sanitizer; Some ['''', v] }
              else do { v \<leftarrow> variationName sanitizer; Some [v] }
            }
          }
          else (case snapshotSanitizer c of
                  Some ss \<Rightarrow>
                    if ss sanitizer then do { v \<leftarrow> variationName sanitizer; Some ['''', v] }
                    else Some ['''']
                | None \<Rightarrow> Some [''''])
      | JniSanitizeableModule \<Rightarrow> Some ['''']
      | SanitizeableModule a \<Rightarrow> do {
          n \<leftarrow> name sanitizer;
          if apexSanitizerEnabled a n then do { v \<leftarrow> variationName sanitizer; Some [v] }
          else Some ['''']
        }
      | OtherModule \<Rightarrow> Some [''''])"

definition OutgoingTransition :: "android_Module \<Rightarrow> DependencyTag \<Rightarrow> string \<Rightarrow> string" where
  "OutgoingTransition m depTag sourceVariation =
     (case m of
        CcModule c \<Rightarrow>
          if \<not> IsSanitizableDependencyTag depTag then '''' else sourceVariation
      | JniSanitizeableModule \<Rightarrow> ''''
      | _ \<Rightarrow> sourceVariation)"

definition IncomingTransition :: "SanitizerType \<Rightarrow> android_Module \<Rightarrow> string \<Rightarrow> string option" where
  "IncomingTransition sanitizer m incomingVariation =
     (case m of
        CcModule d \<Rightarrow>
          if (case snapshotSanitizer d of Some ss \<Rightarrow> ss sanitizer | None \<Rightarrow> False)
          then Some incomingVariation
          else do {
            optsOut \<leftarrow>
              (if \<not> SanitizePropDefined d then Some True
               else do {
                 never \<leftarrow> SanitizeNever d;
                 if never then Some True
                 else do {
                   disabled \<leftarrow> IsSanitizerExplicitlyDisabled d sanitizer;
                   Some (disabled \<or> \<not> SanitizerSupported sanitizer)
                 }
               });
            if optsOut then Some ''''
            else if Binary d then do {
              enabled \<leftarrow> IsSanitizerEnabled d sanitizer;
              if enabled then variationName sanitizer else Some ''''
            }
            else if \<not> StaticallyLinked d \<and> \<not> Header d then do {
              enabled \<leftarrow> IsSanitizerEnabled d sanitizer;
              if enabled then variationName sanitizer
              else if sanitizer = cfi \<or> sanitizer = Hwasan \<or> sanitizer = scs \<or> sanitizer = Asan
              then Some ''''
              else Some incomingVariation
            }
            else Some incomingVariation
          }
      | SanitizeableModule a \<Rightarrow> do {
          n \<leftarrow> name sanitizer;
          if apexSanitizerEnabled a n then variationName sanitizer else Some incomingVariation
        }
      | _ \<Rightarrow> Some '''')"


text \<open>
  \<^verbatim>\<open>Mutate\<close> changes the module and the aggregates of the configuration: both are passed in
  and returned. \<open>device\<close> is \<^verbatim>\<open>mctx.Device()\<close>, \<open>variationName'\<close> the variation being
  materialized.
\<close>

definition Mutate ::
  "SanitizerType \<Rightarrow> bool \<Rightarrow> string \<Rightarrow> Config \<times> android_Module \<Rightarrow> (Config \<times> android_Module) option"
where
  "Mutate sanitizer device variationName' st =
     (case st of (config, m) \<Rightarrow> do {
        vn \<leftarrow> variationName sanitizer;
        let sanitizerVariation = (variationName' = vn) in
        (case m of
           CcModule c \<Rightarrow>
             if SanitizePropDefined c then do {
               sanitizerEnabled \<leftarrow> IsSanitizerEnabled c sanitizer;
               let oneMakeVariation =
                     (if StaticallyLinked c \<or> Header c then
                        sanitizer \<noteq> cfi \<and> sanitizer \<noteq> scs \<and> sanitizer \<noteq> Hwasan
                      else if \<not> Binary c then
                        sanitizer \<noteq> cfi \<and> sanitizer \<noteq> Hwasan \<and> sanitizer \<noteq> scs \<and> sanitizer \<noteq> Asan
                      else False);
                   c1 = (if oneMakeVariation \<and> sanitizerEnabled \<noteq> sanitizerVariation
                         then SetHideFromMake (SetPreventInstall c) else c)
               in
               if sanitizerVariation then do {
                 c2 \<leftarrow> Module_SetSanitizer c1 sanitizer True;
                 c3 \<leftarrow> (if incompatibleWithCfi sanitizer then
                          (let cfiSupported = SanitizerSupported cfi in
                           if device \<and> cfiSupported then Module_SetSanitizer c2 cfi False
                           else Some c2)
                        else Some c2);
                 let c4 = (if \<not> Binary c3 \<and> \<not> StaticallyLinked c3 \<and> \<not> Header c3 \<and> device \<and>
                              sanitizer = Asan \<and> sanitizerEnabled
                           then SetInSanitizerDir c3 else c3);
                     config' =
                       (if StaticallyLinked c4 \<and> ExportedToMake c4 then
                          (if sanitizer = Hwasan then
                             config\<lparr>hwasanStaticLibs := add (hwasanStaticLibs config) c4 (Name c4)\<rparr>
                           else if sanitizer = cfi then
                             config\<lparr>cfiStaticLibs := add (cfiStaticLibs config) c4 (Name c4)\<rparr>
                           else config)
                        else config)
                 in Some (config', CcModule c4)
               }
               else do {
                 enabled \<leftarrow> IsSanitizerEnabled c1 sanitizer;
                 if enabled then do {
                   c2 \<leftarrow> Module_SetSanitizer c1 sanitizer False;
                   Some (config, CcModule c2)
                 }
                 else Some (config, CcModule c1)
               }
             }
             else (case snapshotSanitizer c of
                     Some ss \<Rightarrow>
                       if ss sanitizer then
                         (let c1 = c\<lparr>sanitizerVariations :=
                                      sanitizerVariations c @ [(sanitizer, sanitizerVariation)]\<rparr>;
                              config' =
                                (if static c1 \<and> ExportedToMake c1 \<and> sanitizer = cfi then
                                   config\<lparr>cfiStaticLibs :=
                                     add (cfiStaticLibs config) c1 (BaseModuleName c1)\<rparr>
                                 else config)
                          in Some (config', CcModule c1))
                       else Some (config, m)
                   | None \<Rightarrow> Some (config, m))
         | SanitizeableModule a \<Rightarrow>
             if sanitizerVariation then do {
               n \<leftarrow> name sanitizer;
               Some (config, SanitizeableModule
                 (a\<lparr>sanitizerDependencies := sanitizerDependencies a @ [n]\<rparr>))
             }
             else Some (config, m)
         | _ \<Rightarrow> Some (config, m))
      })"


section \<open>Policy resolution: begin (lines 320-613)\<close>

text \<open>
  The module context, as far as \<^verbatim>\<open>begin\<close> queries it. Every field is the result of the call
  of the same name on \<^verbatim>\<open>ctx\<close>, \<^verbatim>\<open>ctx.Config()\<close> (the path predicates applied to
  \<^verbatim>\<open>ctx.ModuleDir()\<close>) or \<^verbatim>\<open>ctx.toolchain()\<close>; \<open>ArchTypeName\<close> is
  \<^verbatim>\<open>ctx.Arch().ArchType.Name\<close>, \<open>ArchIsArm64\<close> is \<^verbatim>\<open>ctx.Arch().ArchType == android.Arm64\<close>,
  \<open>OsLinux\<close> is \<^verbatim>\<open>ctx.Os().Linux()\<close>, \<open>OsIsWindows\<close> is \<^verbatim>\<open>ctx.Os() == android.Windows\<close>, and
  \<open>ctx_static\<close> is \<^verbatim>\<open>ctx.static()\<close>. These functions are declared outside this file, so
  their results are inputs.
\<close>

record BaseModuleContext =
  useSdk :: bool
  testBinary :: bool
  Host :: bool
  Windows :: bool
  SanitizeHost :: "string list"
  SanitizeDeviceArch :: "string list"
  SanitizeDevice :: "string list"
  SanitizeDeviceDiag :: "string list"
  ArchTypeName :: string
  ArchIsArm64 :: bool
  Bionic :: bool
  Musl :: bool
  Is64Bit :: bool
  OsLinux :: bool
  OsIsWindows :: bool
  CFIDisabledForPath :: bool
  CFIEnabledForPath :: bool
  IntegerOverflowDisabledForPath :: bool
  IntegerOverflowEnabledForPath :: bool
  MemtagHeapDisabledForPath :: bool
  MemtagHeapSyncEnabledForPath :: bool
  MemtagHeapAsyncEnabledForPath :: bool
  BoundSanitizerEnabledForPath :: bool
  BoundSanitizerDisabledForPath :: bool
  EnableCFI :: bool
  DisableScudo :: bool
  ctx_static :: bool
  staticBinary :: bool
  isVndk :: bool
  useVndk :: bool
  inRamdisk :: bool
  inVendorRamdisk :: bool
  inRecovery :: bool
  ModuleDir :: string

text \<open>
  The errors that \<^verbatim>\<open>begin\<close> reports with \<^verbatim>\<open>ctx.ModuleErrorf\<close>:
  "writeonly modifier cannot be used without 'address' or 'hwaddress'",
  "unknown global sanitizer option %s" and "unknown global sanitizer diagnostics option %s".
  \<^verbatim>\<open>ModuleErrorf\<close> records the error against the module and returns; \<^verbatim>\<open>begin\<close> goes on.
\<close>

datatype ModuleError =
  WriteonlyWithoutAddress
  | UnknownGlobalSanitizer string
  | UnknownGlobalSanitizerDiag string

text \<open>
  Modelled from the spec: the list helpers \<^verbatim>\<open>removeFromList\<close>, \<^verbatim>\<open>inList\<close> and
  \<^verbatim>\<open>indexList\<close> are declared outside this file. \<^verbatim>\<open>removeFromList\<close> reports whether the string
  occurs in the list and returns the list without it; \<^verbatim>\<open>indexList\<close> returns the index of the
  first occurrence, or -1; \<^verbatim>\<open>inList\<close> is membership.
\<close>

definition removeFromList :: "string \<Rightarrow> string list \<Rightarrow> bool \<times> string list" where
  "removeFromList s list = (s \<in> set list, filter (\<lambda>item. item \<noteq> s) list)"

definition inList :: "string \<Rightarrow> string list \<Rightarrow> bool" where
  "inList s list \<longleftrightarrow> s \<in> set list"

fun indexList :: "string \<Rightarrow> string list \<Rightarrow> int" where
  "indexList s [] = -1"
| "indexList s (x # xs) =
     (if x = s then 0 else (let i = indexList s xs in if i = -1 then -1 else i + 1))"

text \<open>
  \<^verbatim>\<open>indx := indexList(x, l); if indexList(x, l) != -1 { l = append(l[0:indx], l[indx+1:]...) }\<close>
\<close>

definition removeAtIndexOf :: "string \<Rightarrow> string list \<Rightarrow> string list" where
  "removeAtIndexOf x l =
     (let indx = indexList x l in
      if indexList x l \<noteq> -1 then take (nat indx) l @ drop (nat (indx + 1)) l else l)"

definition HasPrefix :: "string \<Rightarrow> string \<Rightarrow> bool" where
  "HasPrefix s p \<longleftrightarrow> take (length p) s = p"

subsection \<open>Lines 343-446: the global sanitizer lists\<close>

definition globalSanitizersOf :: "BaseModuleContext \<Rightarrow> string list" where
  "globalSanitizersOf ctx =
     (if Host ctx then (if \<not> Windows ctx then SanitizeHost ctx else [])
      else (let arches = SanitizeDeviceArch ctx in
            if length arches = 0 \<or> inList (ArchTypeName ctx) arches then SanitizeDevice ctx
            else []))"

definition globalSanitizersDiagOf :: "BaseModuleContext \<Rightarrow> string list" where
  "globalSanitizersDiagOf ctx =
     (if Host ctx then []
      else (let arches = SanitizeDeviceArch ctx in
            if length arches = 0 \<or> inList (ArchTypeName ctx) arches then SanitizeDeviceDiag ctx
            else []))"

text \<open>
  The variables that the block reads and writes: the properties \<open>s\<close>, the two lists, and the
  errors reported so far.
\<close>

record begin_state =
  props :: SanitizeUserProps
  globalSanitizers :: "string list"
  globalSanitizersDiag :: "string list"
  errors :: "ModuleError list"

text \<open>
  The statement
  \<^verbatim>\<open>if found, globalSanitizers = removeFromList(nm, globalSanitizers); found && unset { body }\<close>
  and its twin on \<^verbatim>\<open>globalSanitizersDiag\<close>.
\<close>

definition ifFoundGlobal ::
  "string \<Rightarrow> (SanitizeUserProps \<Rightarrow> bool) \<Rightarrow> (begin_state \<Rightarrow> begin_state) \<Rightarrow> begin_state \<Rightarrow> begin_state"
where
  "ifFoundGlobal nm unset body st =
     (let r = removeFromList nm (globalSanitizers st);
          st' = st\<lparr>globalSanitizers := snd r\<rparr>
      in if fst r \<and> unset (props st') then body st' else st')"

definition ifFoundGlobalDiag ::
  "string \<Rightarrow> (SanitizeUserProps \<Rightarrow> bool) \<Rightarrow> (begin_state \<Rightarrow> begin_state) \<Rightarrow> begin_state \<Rightarrow> begin_state"
where
  "ifFoundGlobalDiag nm unset body st =
     (let r = removeFromList nm (globalSanitizersDiag st);
          st' = st\<lparr>globalSanitizersDiag := snd r\<rparr>
      in if fst r \<and> unset (props st') then body st' else st')"

definition setProps :: "(SanitizeUserProps \<Rightarrow> SanitizeUserProps) \<Rightarrow> begin_state \<Rightarrow> begin_state" where
  "setProps f st = st\<lparr>props := f (props st)\<rparr>"

definition ModuleErrorf :: "ModuleError \<Rightarrow> begin_state \<Rightarrow> begin_state" where
  "ModuleErrorf e st = st\<lparr>errors := errors st @ [e]\<rparr>"


text \<open>Lines 360-403: the modes of the global list.\<close>

definition begin_globalModes :: "BaseModuleContext \<Rightarrow> begin_state \<Rightarrow> begin_state" where
  "begin_globalModes ctx st =
     (let st = ifFoundGlobal ''undefined'' (\<lambda>s. All_undefined s = None)
                 (setProps (\<lambda>s. s\<lparr>All_undefined := BoolPtr True\<rparr>)) st;
          st = ifFoundGlobal ''default-ub'' (\<lambda>s. Undefined s = None)
                 (setProps (\<lambda>s. s\<lparr>Undefined := BoolPtr True\<rparr>)) st;
          st = ifFoundGlobal ''address'' (\<lambda>s. Address s = None)
                 (setProps (\<lambda>s. s\<lparr>Address := BoolPtr True\<rparr>)) st;
          st = ifFoundGlobal ''thread'' (\<lambda>s. Thread s = None)
                 (setProps (\<lambda>s. s\<lparr>Thread := BoolPtr True\<rparr>)) st;
          st = ifFoundGlobal ''fuzzer'' (\<lambda>s. Fuzzer_prop s = None)
                 (setProps (\<lambda>s. s\<lparr>Fuzzer_prop := BoolPtr True\<rparr>)) st;
          st = ifFoundGlobal ''safe-stack'' (\<lambda>s. Safestack s = None)
                 (setProps (\<lambda>s. s\<lparr>Safestack := BoolPtr True\<rparr>)) st;
          st = ifFoundGlobal ''cfi'' (\<lambda>s. Cfi s = None)
                 (setProps (\<lambda>s. if \<not> CFIDisabledForPath ctx then s\<lparr>Cfi := BoolPtr True\<rparr> else s)) st;
          st = ifFoundGlobal ''integer_overflow'' (\<lambda>s. Integer_overflow s = None)
                 (setProps (\<lambda>s. if \<not> IntegerOverflowDisabledForPath ctx \<and> \<not> ctx_static ctx
                                 then s\<lparr>Integer_overflow := BoolPtr True\<rparr> else s)) st;
          st = ifFoundGlobal ''scudo'' (\<lambda>s. Scudo s = None)
                 (setProps (\<lambda>s. s\<lparr>Scudo := BoolPtr True\<rparr>)) st;
          st = ifFoundGlobal ''hwaddress'' (\<lambda>s. Hwaddress s = None)
                 (setProps (\<lambda>s. s\<lparr>Hwaddress := BoolPtr True\<rparr>)) st
      in st)"

text \<open>Lines 405-412: the write-only modifier of the global list.\<close>

definition begin_globalWriteonly :: "begin_state \<Rightarrow> begin_state" where
  "begin_globalWriteonly st =
     ifFoundGlobal ''writeonly'' (\<lambda>s. Writeonly s = None)
       (\<lambda>st. let st = (if Address (props st) = None \<and> Hwaddress (props st) = None
                       then ModuleErrorf WriteonlyWithoutAddress st else st)
             in setProps (\<lambda>s. s\<lparr>Writeonly := BoolPtr True\<rparr>) st) st"

text \<open>Lines 413-445: memory tagging, the unknown names and the diagnostics list.\<close>

definition begin_globalRest :: "BaseModuleContext \<Rightarrow> begin_state \<Rightarrow> begin_state" where
  "begin_globalRest ctx st =
     (let st = ifFoundGlobal ''memtag_heap'' (\<lambda>s. Memtag_heap_prop s = None)
                 (setProps (\<lambda>s. if \<not> MemtagHeapDisabledForPath ctx
                                 then s\<lparr>Memtag_heap_prop := BoolPtr True\<rparr> else s)) st;
          st = ifFoundGlobal ''memtag_stack'' (\<lambda>s. Memtag_stack_prop s = None)
                 (setProps (\<lambda>s. s\<lparr>Memtag_stack_prop := BoolPtr True\<rparr>)) st;
          st = (case globalSanitizers st of
                  [] \<Rightarrow> st
                | g # _ \<Rightarrow> ModuleErrorf (UnknownGlobalSanitizer g) st);
          st = ifFoundGlobalDiag ''integer_overflow''
                 (\<lambda>s. Diag_Integer_overflow (Diag s) = None \<and> Bool (Integer_overflow s) \<and>
                      \<not> ctx_static ctx)
                 (setProps (\<lambda>s. s\<lparr>Diag := (Diag s)\<lparr>Diag_Integer_overflow := BoolPtr True\<rparr>\<rparr>)) st;
          st = ifFoundGlobalDiag ''cfi''
                 (\<lambda>s. Diag_Cfi (Diag s) = None \<and> Bool (Cfi s))
                 (setProps (\<lambda>s. s\<lparr>Diag := (Diag s)\<lparr>Diag_Cfi := BoolPtr True\<rparr>\<rparr>)) st;
          st = ifFoundGlobalDiag ''memtag_heap''
                 (\<lambda>s. Diag_Memtag_heap (Diag s) = None \<and> Bool (Memtag_heap_prop s))
                 (setProps (\<lambda>s. s\<lparr>Diag := (Diag s)\<lparr>Diag_Memtag_heap := BoolPtr True\<rparr>\<rparr>)) st;
          st = (case globalSanitizersDiag st of
                  [] \<Rightarrow> st
                | g # _ \<Rightarrow> ModuleErrorf (UnknownGlobalSanitizerDiag g) st)
      in st)"

text \<open>Lines 333-446: the defaults of a test binary, then the global lists.\<close>

definition begin_testBinary :: "BaseModuleContext \<Rightarrow> SanitizeUserProps \<Rightarrow> SanitizeUserProps" where
  "begin_testBinary ctx s =
     (if testBinary ctx then
        (let s = (if Memtag_heap_prop s = None then s\<lparr>Memtag_heap_prop := BoolPtr True\<rparr> else s);
             s = (if Diag_Memtag_heap (Diag s) = None
                  then s\<lparr>Diag := (Diag s)\<lparr>Diag_Memtag_heap := BoolPtr True\<rparr>\<rparr> else s)
         in s)
      else s)"

definition begin_global :: "BaseModuleContext \<Rightarrow> SanitizeUserProps \<Rightarrow> begin_state" where
  "begin_global ctx s =
     (let st = \<lparr>props = s, globalSanitizers = globalSanitizersOf ctx,
                globalSanitizersDiag = globalSanitizersDiagOf ctx, errors = []\<rparr>
      in if length (globalSanitizers st) > 0
         then begin_globalRest ctx (begin_globalWriteonly (begin_globalModes ctx st))
         else st)"

subsection \<open>Lines 448-512: the path rules\<close>

definition begin_memtagPaths :: "BaseModuleContext \<Rightarrow> SanitizeUserProps \<Rightarrow> SanitizeUserProps" where
  "begin_memtagPaths ctx s =
     (if ArchIsArm64 ctx \<and> Bionic ctx then
        (if MemtagHeapSyncEnabledForPath ctx then
           (let s = (if Memtag_heap_prop s = None then s\<lparr>Memtag_heap_prop := BoolPtr True\<rparr> else s);
                s = (if Diag_Memtag_heap (Diag s) = None
                     then s\<lparr>Diag := (Diag s)\<lparr>Diag_Memtag_heap := BoolPtr True\<rparr>\<rparr> else s)
            in s)
         else if MemtagHeapAsyncEnabledForPath ctx then
           (if Memtag_heap_prop s = None then s\<lparr>Memtag_heap_prop := BoolPtr True\<rparr> else s)
         else s)
      else s)"

definition begin_overflowPaths :: "BaseModuleContext \<Rightarrow> SanitizeUserProps \<Rightarrow> SanitizeUserProps" where
  "begin_overflowPaths ctx s =
     (let s = (if Integer_overflow s = None \<and> IntegerOverflowEnabledForPath ctx \<and> ArchIsArm64 ctx
               then s\<lparr>Integer_overflow := BoolPtr True\<rparr> else s);
          s = (if BoundSanitizerEnabledForPath ctx \<and> ArchIsArm64 ctx
               then s\<lparr>Misc_undefined := Misc_undefined s @ [''bounds'']\<rparr> else s);
          s = (if BoundSanitizerDisabledForPath ctx \<and> ArchIsArm64 ctx
               then s\<lparr>Misc_undefined := removeAtIndexOf ''bounds'' (Misc_undefined s)\<rparr> else s);
          s = (if IntegerOverflowDisabledForPath ctx \<and> ArchIsArm64 ctx
               then s\<lparr>Misc_undefined :=
                        removeAtIndexOf ''unsigned-integer-overflow''
                          (removeAtIndexOf ''signed-integer-overflow'' (Misc_undefined s)),
                      Integer_overflow := None\<rparr>
               else s)
      in s)"

definition begin_cfiPaths :: "BaseModuleContext \<Rightarrow> SanitizeUserProps \<Rightarrow> SanitizeUserProps" where
  "begin_cfiPaths ctx s =
     (let s = (if Cfi s = None \<and> CFIEnabledForPath ctx \<and> \<not> Host ctx then
                 (let s = s\<lparr>Cfi := BoolPtr True\<rparr> in
                  if inList ''cfi'' (SanitizeDeviceDiag ctx)
                  then s\<lparr>Diag := (Diag s)\<lparr>Diag_Cfi := BoolPtr True\<rparr>\<rparr> else s)
               else s);
          s = (if CFIDisabledForPath ctx \<and> ArchIsArm64 ctx then
                 (let s = s\<lparr>Cfi := None\<rparr> in
                  if inList ''cfi'' (SanitizeDeviceDiag ctx)
                  then s\<lparr>Diag := (Diag s)\<lparr>Diag_Cfi := None\<rparr>\<rparr> else s)
               else s);
          s = (if \<not> EnableCFI ctx then s\<lparr>Cfi := None, Diag := (Diag s)\<lparr>Diag_Cfi := None\<rparr>\<rparr>
               else s)
      in s)"


subsection \<open>Lines 514-590: eligibility and mutual exclusion\<close>

definition begin_arch :: "BaseModuleContext \<Rightarrow> SanitizeUserProps \<Rightarrow> SanitizeUserProps" where
  "begin_arch ctx s =
     (let s = (if \<not> ArchIsArm64 ctx \<or> \<not> Bionic ctx then s\<lparr>Hwaddress := None\<rparr> else s);
          s = (if \<not> ArchIsArm64 ctx \<or> \<not> Bionic ctx then s\<lparr>Scs := None\<rparr> else s);
          s = (if \<not> ArchIsArm64 ctx \<or> \<not> Bionic ctx \<or> Host ctx
               then s\<lparr>Memtag_heap_prop := None, Memtag_stack_prop := None\<rparr> else s)
      in s)"

definition begin_asanWins :: "SanitizeUserProps \<Rightarrow> SanitizeUserProps" where
  "begin_asanWins s =
     (if Bool (Address s) \<or> Bool (Hwaddress s)
      then s\<lparr>Cfi := None, Diag := (Diag s)\<lparr>Diag_Cfi := None\<rparr>,
             Memtag_heap_prop := None, Memtag_stack_prop := None\<rparr>
      else s)"

definition begin_platform :: "BaseModuleContext \<Rightarrow> SanitizeUserProps \<Rightarrow> SanitizeUserProps" where
  "begin_platform ctx s =
     (let s = (if \<not> OsLinux ctx
               then s\<lparr>Cfi := None, Diag := (Diag s)\<lparr>Diag_Cfi := None\<rparr>, Misc_undefined := [],
                      Undefined := None, All_undefined := None, Integer_overflow := None\<rparr>
               else s);
          s = (if Musl ctx then s\<lparr>Cfi := None, Diag := (Diag s)\<lparr>Diag_Cfi := None\<rparr>\<rparr> else s);
          s = (if isVndk ctx \<and> useVndk ctx then
                 (if ctx_static ctx then s\<lparr>Cfi := None, Diag := (Diag s)\<lparr>Diag_Cfi := None\<rparr>\<rparr>
                  else s\<lparr>Cfi := None, Diag := (Diag s)\<lparr>Diag_Cfi := None\<rparr>\<rparr>)
               else s)
      in s)"

definition begin_linkage :: "BaseModuleContext \<Rightarrow> SanitizeUserProps \<Rightarrow> SanitizeUserProps" where
  "begin_linkage ctx s =
     (let s = (if (inRamdisk ctx \<or> inVendorRamdisk ctx \<or> inRecovery ctx) \<and>
                  \<not> HasPrefix (ModuleDir ctx) ''bionic/libc''
               then s\<lparr>Hwaddress := None\<rparr> else s);
          s = (if staticBinary ctx
               then s\<lparr>Address := None, Fuzzer_prop := None, Thread := None\<rparr> else s);
          s = (if Bool (All_undefined s) then s\<lparr>Undefined := None\<rparr> else s);
          s = (if \<not> Is64Bit ctx then s\<lparr>Thread := None, Safestack := None\<rparr> else s)
      in s)"

subsection \<open>Lines 592-612: the enabled status and the last three rules\<close>

text \<open>The disjunction of lines 592-594, without the test of the operating system.\<close>

definition anySanitizer :: "SanitizeUserProps \<Rightarrow> bool" where
  "anySanitizer s \<longleftrightarrow>
     Bool (All_undefined s) \<or> Bool (Undefined s) \<or> Bool (Address s) \<or> Bool (Thread s) \<or>
     Bool (Fuzzer_prop s) \<or> Bool (Safestack s) \<or> Bool (Cfi s) \<or> Bool (Integer_overflow s) \<or>
     length (Misc_undefined s) > 0 \<or>
     Bool (Scudo s) \<or> Bool (Hwaddress s) \<or> Bool (Scs s) \<or> Bool (Memtag_heap_prop s) \<or>
     Bool (Memtag_stack_prop s)"

definition begin_last :: "BaseModuleContext \<Rightarrow> SanitizeUserProps \<Rightarrow> SanitizeUserProps" where
  "begin_last ctx s =
     (let s = (if Bool (Address s) \<or> Bool (Thread s) \<or> Bool (Hwaddress s) \<or> DisableScudo ctx
               then s\<lparr>Scudo := None\<rparr> else s);
          s = (if Bool (Hwaddress s) then s\<lparr>Address := None, Thread := None\<rparr> else s);
          s = (if Bool (Fuzzer_prop s) then s\<lparr>Cfi := None\<rparr> else s)
      in s)"

text \<open>
  The state that the rule of lines 531-538 establishes: with address or hardware-address
  enabled, control-flow-integrity and the memory-tag modes are unset.
\<close>

definition addressWins :: "SanitizeUserProps \<Rightarrow> bool" where
  "addressWins s \<longleftrightarrow>
     (Bool (Address s) \<or> Bool (Hwaddress s) \<longrightarrow>
      Cfi s = None \<and> Memtag_heap_prop s = None \<and> Memtag_stack_prop s = None)"



text \<open>
  The state of the properties at line 592, for a module that does not opt out.
\<close>

definition begin_pruned :: "BaseModuleContext \<Rightarrow> SanitizeUserProps \<Rightarrow> begin_state" where
  "begin_pruned ctx s =
     (let st = begin_global ctx (begin_testBinary ctx s) in
      st\<lparr>props := begin_linkage ctx (begin_platform ctx (begin_asanWins (begin_arch ctx
          (begin_cfiPaths ctx (begin_overflowPaths ctx (begin_memtagPaths ctx (props st)))))))\<rparr>)"

text \<open>
  The method \<^verbatim>\<open>begin\<close> of \<^verbatim>\<open>sanitize\<close>: it returns the errors it reported and the record it
  wrote through its receiver.
\<close>

definition sanitize_begin :: "BaseModuleContext \<Rightarrow> sanitize \<Rightarrow> ModuleError list \<times> sanitize" where
  "sanitize_begin ctx sz =
     (let sz = (if useSdk ctx then set_Sanitize (\<lambda>s. s\<lparr>Never := BoolPtr True\<rparr>) sz else sz) in
      if Bool (Never (Sanitize (Properties sz))) then ([], sz)
      else
        (let st = begin_pruned ctx (Sanitize (Properties sz));
             sz = set_Sanitize (\<lambda>_. props st) sz;
             sz = (if \<not> OsIsWindows ctx \<and> anySanitizer (Sanitize (Properties sz))
                   then sz\<lparr>Properties := (Properties sz)\<lparr>SanitizerEnabled := True\<rparr>\<rparr> else sz);
             sz = set_Sanitize (begin_last ctx) sz
         in (errors st, sz)))"


section \<open>Concrete inputs\<close>

text \<open>The zero value of the struct: every pointer nil, every list empty, every flag false.\<close>

definition zeroDiag :: SanitizeDiag where
  "zeroDiag = \<lparr>Diag_Undefined = None, Diag_Cfi = None, Diag_Integer_overflow = None,
     Diag_Memtag_heap = None, Diag_Misc_undefined = [], Diag_No_recover = []\<rparr>"

definition zeroUserProps :: SanitizeUserProps where
  "zeroUserProps = \<lparr>Never = None, Address = None, Thread = None, Hwaddress = None,
     All_undefined = None, Undefined = None, Misc_undefined = [], Fuzzer_prop = None,
     Safestack = None, Cfi = None, Integer_overflow = None, Scudo = None, Scs = None,
     Memtag_heap_prop = None, Memtag_stack_prop = None, Writeonly = None, Diag = zeroDiag,
     Cfi_assembly_support = None, Recover = [], Blocklist = None\<rparr>"

definition zeroSanitize :: sanitize where
  "zeroSanitize = \<lparr>Properties = \<lparr>Sanitize = zeroUserProps, SanitizerEnabled = False,
     MinimalRuntimeDep = False, BuiltinsDep = False, UbsanRuntimeDep = False,
     InSanitizerDir = False, Sanitizers_prop = [], DiagSanitizers = []\<rparr>\<rparr>"

definition zeroModule :: Module where
  "zeroModule = \<lparr>sanitize = None, Binary = False, static = False, Header = False,
     InVendor = False, IsPrebuilt = False, ExportedToMake = False, Name = [],
     BaseModuleName = [], ImageVariantType = [], ArchTypeString = [],
     IsVendorProprietaryModule = False, PreventInstall = False, HideFromMake = False,
     snapshotSanitizer = None, sanitizerVariations = []\<rparr>"


text \<open>A statically linked executable that requests shadow-call-stack.\<close>

definition staticBinaryScs :: Module where
  "staticBinaryScs =
     zeroModule\<lparr>sanitize := Some (set_Sanitize (\<lambda>s. s\<lparr>Scs := Some True\<rparr>) zeroSanitize),
       Binary := True, static := True\<rparr>"

text \<open>A static library that requests address sanitizing.\<close>

definition staticLibAsan :: Module where
  "staticLibAsan =
     zeroModule\<lparr>sanitize := Some (set_Sanitize (\<lambda>s. s\<lparr>Address := Some True\<rparr>) zeroSanitize),
       static := True\<rparr>"

text \<open>
  A static library that requests control-flow-integrity, and the same library after
  \<^verbatim>\<open>Mutate\<close> has materialized its address-sanitizer variation in a host build.
\<close>

definition staticLibCfi :: Module where
  "staticLibCfi =
     zeroModule\<lparr>sanitize := Some (set_Sanitize (\<lambda>s. s\<lparr>Cfi := Some True\<rparr>) zeroSanitize),
       static := True\<rparr>"

definition staticLibCfi_asan :: Module where
  "staticLibCfi_asan =
     zeroModule\<lparr>sanitize := Some (zeroSanitize\<lparr>Properties := (Properties zeroSanitize)\<lparr>
         Sanitize := zeroUserProps\<lparr>Address := Some True, Cfi := Some True\<rparr>,
         SanitizerEnabled := True\<rparr>\<rparr>),
       static := True, PreventInstall := True, HideFromMake := True\<rparr>"


text \<open>Two static libraries, one of the vendor image and one of the core image.\<close>

definition vendorLib :: Module where
  "vendorLib = zeroModule\<lparr>ImageVariantType := ''VENDOR'', ArchTypeString := ''arm64''\<rparr>"

definition coreLib :: Module where
  "coreLib = zeroModule\<lparr>ImageVariantType := ''CORE'', ArchTypeString := ''arm64''\<rparr>"


text \<open>
  A 64-bit Linux host context with no global sanitizers and control-flow-integrity enabled in
  the build, and one in which Scudo is disabled globally.
\<close>

definition linuxHost :: BaseModuleContext where
  "linuxHost = \<lparr>useSdk = False, testBinary = False, Host = True, Windows = False,
     SanitizeHost = [], SanitizeDeviceArch = [], SanitizeDevice = [], SanitizeDeviceDiag = [],
     ArchTypeName = ''x86_64'', ArchIsArm64 = False, Bionic = False, Musl = False,
     Is64Bit = True, OsLinux = True, OsIsWindows = False, CFIDisabledForPath = False,
     CFIEnabledForPath = False, IntegerOverflowDisabledForPath = False,
     IntegerOverflowEnabledForPath = False, MemtagHeapDisabledForPath = False,
     MemtagHeapSyncEnabledForPath = False, MemtagHeapAsyncEnabledForPath = False,
     BoundSanitizerEnabledForPath = False, BoundSanitizerDisabledForPath = False,
     EnableCFI = True, DisableScudo = False, ctx_static = False, staticBinary = False,
     isVndk = False, useVndk = False, inRamdisk = False, inVendorRamdisk = False,
     inRecovery = False, ModuleDir = ''external/foo''\<rparr>"

definition linuxHostNoScudo :: BaseModuleContext where
  "linuxHostNoScudo = linuxHost\<lparr>DisableScudo := True\<rparr>"


text \<open>An arm64 device context with the Bionic toolchain.\<close>

definition arm64Device :: BaseModuleContext where
  "arm64Device = linuxHost\<lparr>Host := False, ArchTypeName := ''arm64'', ArchIsArm64 := True,
     Bionic := True\<rparr>"



text \<open>
  Minimal-runtime eligibility as the specification words it: no address, hardware-address or
  fuzzer mode, some overflow or undefined-behaviour check, and no diagnostic form of one of
  those checks.
\<close>

definition minimalRuntime_spec :: "sanitize \<Rightarrow> bool" where
  "minimalRuntime_spec sz =
     (let s = Sanitize (Properties sz) in
      \<not> Bool (Address s) \<and> \<not> Bool (Hwaddress s) \<and> \<not> Bool (Fuzzer_prop s) \<and>
      (Bool (Integer_overflow s) \<or> Misc_undefined s \<noteq> [] \<or> Bool (Undefined s) \<or>
       Bool (All_undefined s)) \<and>
      \<not> Bool (Diag_Integer_overflow (Diag s)) \<and> \<not> Bool (Diag_Undefined (Diag s)) \<and>
      Diag_Misc_undefined (Diag s) = [])"

section \<open>Verified properties\<close>

lemmas SanitizerType_defs =
  Asan_def Hwasan_def tsan_def intOverflow_def scs_def Fuzzer_def Memtag_heap_def
  Memtag_stack_def cfi_def

subsection \<open>Minimal-runtime eligibility\<close>

text \<open>
  C7, as stated: eligibility holds exactly when no address, hardware-address or fuzzer mode is
  enabled, some overflow or undefined-family check is enabled, and no diagnostic form of one of
  those checks is enabled. This fails for a module with integer-overflow checking and
  control-flow-integrity in diagnostic form: the stated condition holds, but
  \<open>enableMinimalRuntime\<close> is false, because the code also tests \<open>Diag.Cfi\<close>.
\<close>

theorem enableMinimalRuntime_counterexample:
  "enableMinimalRuntime (set_Sanitize (\<lambda>s. s\<lparr>Integer_overflow := Some True, Cfi := Some True,
       Diag := (Diag s)\<lparr>Diag_Cfi := Some True\<rparr>\<rparr>) zeroSanitize) = False \<and>
   minimalRuntime_spec (set_Sanitize (\<lambda>s. s\<lparr>Integer_overflow := Some True, Cfi := Some True,
       Diag := (Diag s)\<lparr>Diag_Cfi := Some True\<rparr>\<rparr>) zeroSanitize) = True"
  by (simp add: enableMinimalRuntime_def minimalRuntime_spec_def set_Sanitize_def zeroSanitize_def
        zeroUserProps_def zeroDiag_def Bool_def)

text \<open>
  C7, amended: \<open>enableMinimalRuntime\<close> is true exactly when the stated condition holds and,
  in addition, the diagnostic form of control-flow-integrity is not enabled.
\<close>

theorem enableMinimalRuntime_iff:
  "enableMinimalRuntime sz \<longleftrightarrow>
     minimalRuntime_spec sz \<and> \<not> Bool (Diag_Cfi (Diag (Sanitize (Properties sz))))"
  by (auto simp: enableMinimalRuntime_def minimalRuntime_spec_def Let_def)

theorem enableMinimalRuntime_iff_witness:
  "minimalRuntime_spec (set_Sanitize (\<lambda>s. s\<lparr>Integer_overflow := Some True\<rparr>) zeroSanitize) \<and>
   \<not> Bool (Diag_Cfi (Diag (Sanitize (Properties
        (set_Sanitize (\<lambda>s. s\<lparr>Integer_overflow := Some True\<rparr>) zeroSanitize))))) \<and>
   enableMinimalRuntime (set_Sanitize (\<lambda>s. s\<lparr>Integer_overflow := Some True\<rparr>) zeroSanitize)"
  using enableMinimalRuntime_iff [of "set_Sanitize (\<lambda>s. s\<lparr>Integer_overflow := Some True\<rparr>) zeroSanitize"]
  by (simp add: minimalRuntime_spec_def set_Sanitize_def zeroSanitize_def zeroUserProps_def
        zeroDiag_def Bool_def)

subsection \<open>Disabling a mode through SetSanitizer\<close>

text \<open>
  C10: for every sanitize record and every valid sanitizer type \<open>t\<close>, \<open>SetSanitizer t false\<close>
  returns, the stored pointer of \<open>t\<close> is nil afterwards, so \<open>isSanitizerExplicitlyDisabled t\<close>
  is false, and \<open>SanitizerEnabled\<close> is unchanged; \<open>SetSanitizer t true\<close> sets it.
\<close>

theorem SetSanitizer_false_unsets:
  assumes "t \<in> set Sanitizers"
  shows "\<exists>sz'. SetSanitizer sz t False = Some sz' \<and>
           getSanitizerBoolPtr sz' t = Some None \<and>
           isSanitizerExplicitlyDisabled (Some sz') t = Some False \<and>
           SanitizerEnabled (Properties sz') = SanitizerEnabled (Properties sz) \<and>
           (\<exists>sz''. SetSanitizer sz t True = Some sz'' \<and> SanitizerEnabled (Properties sz''))"
  using assms
  by (auto simp: Sanitizers_def SetSanitizer_def getSanitizerBoolPtr_def
        isSanitizerExplicitlyDisabled_def set_Sanitize_def BoolPtr_def SanitizerType_defs)

theorem SetSanitizer_false_unsets_witness:
  "cfi \<in> set Sanitizers \<and>
   (\<exists>sz'. SetSanitizer (set_Sanitize (\<lambda>s. s\<lparr>Cfi := Some False\<rparr>) zeroSanitize) cfi False = Some sz' \<and>
           getSanitizerBoolPtr sz' cfi = Some None \<and>
           isSanitizerExplicitlyDisabled (Some sz') cfi = Some False \<and>
           SanitizerEnabled (Properties sz') =
             SanitizerEnabled (Properties (set_Sanitize (\<lambda>s. s\<lparr>Cfi := Some False\<rparr>) zeroSanitize)) \<and>
           (\<exists>sz''. SetSanitizer (set_Sanitize (\<lambda>s. s\<lparr>Cfi := Some False\<rparr>) zeroSanitize) cfi True = Some sz'' \<and>
              SanitizerEnabled (Properties sz'')))"
proof -
  have h: "cfi \<in> set Sanitizers" by (simp add: Sanitizers_def)
  from SetSanitizer_false_unsets [OF h] h show ?thesis by blast
qed

subsection \<open>The split mutator\<close>

lemmas zero_defs = zeroModule_def zeroSanitize_def zeroUserProps_def zeroDiag_def

lemmas Module_method_defs = SanitizePropDefined_def IsSanitizerEnabled_def StaticallyLinked_def
  SanitizeNever_def IsSanitizerExplicitlyDisabled_def isSanitizerEnabled_def
  isSanitizerExplicitlyDisabled_def getSanitizerBoolPtr_def

lemma needsCfi_total:
  "sanitize c = Some sz \<Longrightarrow> \<exists>b. needsCfiForVendorSnapshot c = Some b"
  by (auto simp: needsCfiForVendorSnapshot_def Module_method_defs SanitizerType_defs)

lemma splitting_variationName: "splitting t \<Longrightarrow> \<exists>v. variationName t = Some v"
  by (auto simp: splitting_def variationName_def)

lemma splitting_enabled: "splitting t \<Longrightarrow> \<exists>b. IsSanitizerEnabled c t = Some b"
  by (auto simp: splitting_def Module_method_defs SanitizerType_defs split: option.splits)

text \<open>
  C1, as stated: with the mode enabled, a statically linked module gets the base and the
  sanitized variation. A statically linked executable is a binary and statically linked at
  once; with shadow-call-stack enabled \<open>Split\<close> tests \<open>Binary\<close> first and returns the sanitized
  variation alone.
\<close>

theorem Split_counterexample:
  "SanitizePropDefined staticBinaryScs \<and> splitting scs \<and>
   IsSanitizerEnabled staticBinaryScs scs = Some True \<and>
   StaticallyLinked staticBinaryScs \<and>
   Split scs (CcModule staticBinaryScs) = Some [''scs''] \<and>
   Split scs (CcModule staticBinaryScs) \<noteq> Some ['''', ''scs'']"
  by (simp add: Split_def staticBinaryScs_def zero_defs Module_method_defs set_Sanitize_def
        splitting_def variationName_def SanitizerType_defs)

text \<open>
  C1, amended: for a module with a sanitize property and a splitting mode, a binary in the
  forced control-flow-integrity vendor-snapshot case set aside, \<open>Split\<close> returns, in this
  order of precedence: the base and the sanitized variation for a module that is not a binary
  in the forced control-flow-integrity vendor-snapshot case; the base variation alone when the
  mode is not enabled; the sanitized variation alone for a binary; the base and the sanitized
  variation for a module that is statically linked or header-only; the sanitized variation
  alone otherwise (a shared library).
\<close>

theorem Split_variations:
  assumes "splitting t" and "SanitizePropDefined c"
    and "\<not> (t = cfi \<and> Binary c \<and> needsCfiForVendorSnapshot c = Some True)"
  shows "\<exists>v. variationName t = Some v \<and>
           Split t (CcModule c) = Some
             (if t = cfi \<and> needsCfiForVendorSnapshot c = Some True \<and> \<not> Binary c
              then ['''', v]
              else if IsSanitizerEnabled c t \<noteq> Some True then ['''']
              else if Binary c then [v]
              else if StaticallyLinked c \<or> Header c then ['''', v]
              else [v])"
proof -
  from assms(1) obtain v where v: "variationName t = Some v"
    using splitting_variationName by blast
  from assms(1) obtain b where b: "IsSanitizerEnabled c t = Some b"
    using splitting_enabled by blast
  from assms(2) obtain sz where "sanitize c = Some sz"
    by (auto simp: SanitizePropDefined_def)
  then obtain f where f: "needsCfiForVendorSnapshot c = Some f"
    using needsCfi_total by blast
  show ?thesis
  proof (cases "t = cfi")
    case True
    with v b f assms(2,3) show ?thesis by (cases f; cases b; simp add: Split_def)
  next
    case False
    with v b assms(2) show ?thesis by (cases b; simp add: Split_def)
  qed
qed

theorem Split_variations_witness:
  "splitting Asan \<and> SanitizePropDefined staticLibAsan \<and>
   \<not> (Asan = cfi \<and> Binary staticLibAsan \<and>
      needsCfiForVendorSnapshot staticLibAsan = Some True) \<and>
   variationName Asan = Some ''asan'' \<and>
   Split Asan (CcModule staticLibAsan) = Some ['''', ''asan'']"
proof -
  have h1: "splitting Asan" by (simp add: splitting_def)
  have h2: "SanitizePropDefined staticLibAsan"
    by (simp add: SanitizePropDefined_def staticLibAsan_def zeroModule_def)
  have h3: "\<not> (Asan = cfi \<and> Binary staticLibAsan \<and>
      needsCfiForVendorSnapshot staticLibAsan = Some True)"
    by (simp add: SanitizerType_defs)
  have e: "IsSanitizerEnabled staticLibAsan Asan = Some True"
    by (simp add: staticLibAsan_def zero_defs Module_method_defs set_Sanitize_def
          SanitizerType_defs)
  have s: "StaticallyLinked staticLibAsan \<and> \<not> Binary staticLibAsan"
    by (simp add: StaticallyLinked_def staticLibAsan_def zeroModule_def)
  have n: "variationName Asan = Some ''asan''" by (simp add: variationName_def)
  from Split_variations [OF h1 h2 h3] e s n
  have "Split Asan (CcModule staticLibAsan) = Some ['''', ''asan'']"
    by (simp add: SanitizerType_defs)
  with h1 h2 h3 n show ?thesis by blast
qed

lemma nonpropagating_enabled:
  "t \<in> {Asan, Hwasan, cfi, scs} \<Longrightarrow> \<exists>b. IsSanitizerEnabled d t = Some b"
  by (auto simp: Module_method_defs SanitizerType_defs split: option.splits)

lemma nonpropagating_disabled:
  "t \<in> {Asan, Hwasan, cfi, scs} \<Longrightarrow> \<exists>b. IsSanitizerExplicitlyDisabled d t = Some b"
  by (auto simp: Module_method_defs SanitizerType_defs split: option.splits)

text \<open>
  C2: for a target that is neither statically linked nor header-only, a mode among address,
  hardware-address, control-flow-integrity and shadow-call-stack that the target has not
  enabled, and a linker that is not a snapshot sanitizer with the mode enabled,
  \<open>IncomingTransition\<close> returns the base variation for every incoming variation.
\<close>

theorem IncomingTransition_shared_base:
  assumes "\<not> StaticallyLinked d" and "\<not> Header d"
    and t: "t \<in> {Asan, Hwasan, cfi, scs}"
    and en: "IsSanitizerEnabled d t \<noteq> Some True"
    and snap: "case snapshotSanitizer d of Some ss \<Rightarrow> \<not> ss t | None \<Rightarrow> True"
  shows "IncomingTransition t (CcModule d) incomingVariation = Some ''''"
proof -
  from t en have e: "IsSanitizerEnabled d t = Some False"
    using nonpropagating_enabled [of t d] by auto
  from t obtain b where b: "IsSanitizerExplicitlyDisabled d t = Some b"
    using nonpropagating_disabled by blast
  from snap have s: "\<not> (case snapshotSanitizer d of Some ss \<Rightarrow> ss t | None \<Rightarrow> False)"
    by (simp split: option.splits)
  have n: "SanitizePropDefined d \<Longrightarrow> \<exists>n. SanitizeNever d = Some n"
    by (auto simp: SanitizePropDefined_def SanitizeNever_def)
  show ?thesis
  proof (cases "SanitizePropDefined d")
    case False
    with s show ?thesis by (simp add: IncomingTransition_def)
  next
    case True
    with n obtain nv where "SanitizeNever d = Some nv" by blast
    with True s e b t assms(1,2) show ?thesis
      by (auto simp: IncomingTransition_def)
  qed
qed

theorem IncomingTransition_shared_base_witness:
  "\<not> StaticallyLinked (zeroModule\<lparr>sanitize := Some zeroSanitize\<rparr>) \<and>
   \<not> Header (zeroModule\<lparr>sanitize := Some zeroSanitize\<rparr>) \<and>
   Asan \<in> {Asan, Hwasan, cfi, scs} \<and>
   IsSanitizerEnabled (zeroModule\<lparr>sanitize := Some zeroSanitize\<rparr>) Asan \<noteq> Some True \<and>
   (case snapshotSanitizer (zeroModule\<lparr>sanitize := Some zeroSanitize\<rparr>) of
      Some ss \<Rightarrow> \<not> ss Asan | None \<Rightarrow> True) \<and>
   IncomingTransition Asan (CcModule (zeroModule\<lparr>sanitize := Some zeroSanitize\<rparr>)) ''asan'' = Some ''''"
proof -
  let ?d = "zeroModule\<lparr>sanitize := Some zeroSanitize\<rparr>"
  have h1: "\<not> StaticallyLinked ?d" by (simp add: StaticallyLinked_def zeroModule_def)
  have h2: "\<not> Header ?d" by (simp add: zeroModule_def)
  have h3: "Asan \<in> {Asan, Hwasan, cfi, scs}" by simp
  have h4: "IsSanitizerEnabled ?d Asan \<noteq> Some True"
    by (simp add: Module_method_defs zero_defs)
  have h5: "case snapshotSanitizer ?d of Some ss \<Rightarrow> \<not> ss Asan | None \<Rightarrow> True"
    by (simp add: zeroModule_def)
  from IncomingTransition_shared_base [OF h1 h2 h3 h4 h5] h1 h2 h3 h4 h5
  show ?thesis by blast
qed

text \<open>
  C3, as stated: an edge whose tag is an object-reuse tag resolves to the base variation
  whatever the variation of its source. \<open>IsSanitizableDependencyTag\<close> is true of
  \<open>reuseObjTag\<close>, and \<open>OutgoingTransition\<close> passes the source variation on.
\<close>

theorem OutgoingTransition_counterexample:
  "IsSanitizableDependencyTag (DependencyTag reuseObjTag) \<and>
   OutgoingTransition (CcModule zeroModule) (DependencyTag reuseObjTag) ''asan'' = ''asan'' \<and>
   OutgoingTransition (CcModule zeroModule) (DependencyTag reuseObjTag) ''asan'' \<noteq> ''''"
  by (simp add: OutgoingTransition_def IsSanitizableDependencyTag_def)

text \<open>
  C3, amended: for a source module that is a \<open>PlatformSanitizeable\<close>, \<open>OutgoingTransition\<close>
  returns the base variation for every tag of which \<open>IsSanitizableDependencyTag\<close> is false and
  the source variation for every other tag; the object tags \<open>reuseObjTag\<close> and \<open>objDepTag\<close>
  are sanitizable.
\<close>

theorem OutgoingTransition_tag:
  "(\<not> IsSanitizableDependencyTag depTag \<longrightarrow> OutgoingTransition (CcModule c) depTag v = '''') \<and>
   (IsSanitizableDependencyTag depTag \<longrightarrow> OutgoingTransition (CcModule c) depTag v = v) \<and>
   IsSanitizableDependencyTag (DependencyTag reuseObjTag) \<and>
   IsSanitizableDependencyTag (DependencyTag objDepTag)"
  by (simp add: OutgoingTransition_def IsSanitizableDependencyTag_def)

theorem OutgoingTransition_tag_witness:
  "\<not> IsSanitizableDependencyTag OtherTag \<and>
   OutgoingTransition (CcModule zeroModule) OtherTag ''asan'' = '''' \<and>
   IsSanitizableDependencyTag LibraryDependencyTag \<and>
   OutgoingTransition (CcModule zeroModule) LibraryDependencyTag ''asan'' = ''asan''"
  using OutgoingTransition_tag [of OtherTag zeroModule "''asan''"]
    OutgoingTransition_tag [of LibraryDependencyTag zeroModule "''asan''"]
  by (simp add: IsSanitizableDependencyTag_def)


lemma SetSanitizer_true_incompatible:
  assumes "t \<in> {Asan, Hwasan, Fuzzer}"
  shows "\<exists>sz1. SetSanitizer sz t True = Some sz1 \<and>
           getSanitizerBoolPtr sz1 t = Some (Some True) \<and>
           Cfi (Sanitize (Properties sz1)) = Cfi (Sanitize (Properties sz))"
  using assms
  by (auto simp: SetSanitizer_def getSanitizerBoolPtr_def set_Sanitize_def BoolPtr_def
        SanitizerType_defs)

lemma SetSanitizer_cfi_false:
  assumes "t \<in> {Asan, Hwasan, Fuzzer}"
  shows "\<exists>sz2. SetSanitizer sz cfi False = Some sz2 \<and>
           getSanitizerBoolPtr sz2 t = getSanitizerBoolPtr sz t \<and>
           Cfi (Sanitize (Properties sz2)) = None"
  using assms
  by (auto simp: SetSanitizer_def getSanitizerBoolPtr_def set_Sanitize_def BoolPtr_def
        SanitizerType_defs)

lemma getSanitizerBoolPtr_InSanitizerDir:
  "getSanitizerBoolPtr (s\<lparr>Properties := (Properties s)\<lparr>InSanitizerDir := True\<rparr>\<rparr>) t =
   getSanitizerBoolPtr s t"
  by (simp add: getSanitizerBoolPtr_def)

text \<open>
  C8, as stated: in the sanitized variation of address, hardware-address or fuzzer, \<open>Mutate\<close>
  forces control-flow-integrity off, host or device. In a host build (\<open>device\<close> false) a
  static library that requested control-flow-integrity keeps it in its address-sanitizer
  variation.
\<close>

theorem Mutate_cfi_counterexample:
  "incompatibleWithCfi Asan \<and> SanitizerSupported cfi \<and>
   Mutate Asan False ''asan'' (newConfig, CcModule staticLibCfi) =
     Some (newConfig, CcModule staticLibCfi_asan) \<and>
   IsSanitizerEnabled staticLibCfi_asan cfi = Some True"
  by (simp add: Mutate_def staticLibCfi_def staticLibCfi_asan_def zero_defs Module_method_defs
        set_Sanitize_def variationName_def SanitizerType_defs incompatibleWithCfi_def
        SanitizerSupported_def Module_SetSanitizer_def SetSanitizer_def BoolPtr_def
        SetHideFromMake_def SetPreventInstall_def newConfig_def)

text \<open>
  C8, amended: for a module with a sanitize property, materialized in the sanitized variation
  of address, hardware-address or fuzzer, \<open>Mutate\<close> returns with the mode enabled on the copy;
  in a device build the control-flow-integrity pointer of the copy is nil afterwards, whatever
  it was; in a host build it is left as it was.
\<close>

theorem Mutate_disables_cfi_on_device:
  assumes t: "t \<in> {Asan, Hwasan, Fuzzer}"
    and sz: "sanitize c = Some sz"
    and vn: "variationName t = Some vn"
  shows "\<exists>config' c' sz'.
           Mutate t device vn (config, CcModule c) = Some (config', CcModule c') \<and>
           sanitize c' = Some sz' \<and>
           getSanitizerBoolPtr sz' t = Some (Some True) \<and>
           Cfi (Sanitize (Properties sz')) =
             (if device then None else Cfi (Sanitize (Properties sz)))"
proof -
  from t have "\<exists>b. IsSanitizerEnabled c t = Some b"
    by (auto simp: Module_method_defs SanitizerType_defs split: option.splits)
  then obtain b where b: "IsSanitizerEnabled c t = Some b" by blast
  from SetSanitizer_true_incompatible [OF t, of sz] obtain sz1 where
    sz1: "SetSanitizer sz t True = Some sz1" "getSanitizerBoolPtr sz1 t = Some (Some True)"
      "Cfi (Sanitize (Properties sz1)) = Cfi (Sanitize (Properties sz))" by blast
  from SetSanitizer_cfi_false [OF t, of sz1] obtain sz2 where
    sz2: "SetSanitizer sz1 cfi False = Some sz2"
      "getSanitizerBoolPtr sz2 t = getSanitizerBoolPtr sz1 t"
      "Cfi (Sanitize (Properties sz2)) = None" by blast
  have inc: "incompatibleWithCfi t" using t by (auto simp: incompatibleWithCfi_def)
  have sup: "SanitizerSupported cfi" by (simp add: SanitizerSupported_def)
  have M2: "\<And>x. sanitize x = Some sz \<Longrightarrow>
      Module_SetSanitizer x t True = Some (x\<lparr>sanitize := Some sz1\<rparr>)"
    using sz1 by (simp add: Module_SetSanitizer_def)
  have M3: "\<And>x. sanitize x = Some sz1 \<Longrightarrow>
      Module_SetSanitizer x cfi False = Some (x\<lparr>sanitize := Some sz2\<rparr>)"
    using sz2 by (simp add: Module_SetSanitizer_def)
  have H: "sanitize (SetHideFromMake (SetPreventInstall c)) = Some sz"
    using sz by (simp add: SetHideFromMake_def SetPreventInstall_def)
  show ?thesis
    using sz1(2,3) sz2(2,3)
    by (auto simp: Mutate_def Let_def SanitizePropDefined_def M2 M3 H sz b vn inc sup
          SetInSanitizerDir_def getSanitizerBoolPtr_InSanitizerDir)
qed

theorem Mutate_disables_cfi_on_device_witness:
  "Asan \<in> {Asan, Hwasan, Fuzzer} \<and>
   sanitize staticLibCfi = Some (set_Sanitize (\<lambda>s. s\<lparr>Cfi := Some True\<rparr>) zeroSanitize) \<and>
   variationName Asan = Some ''asan'' \<and>
   (\<exists>config' c' sz'.
      Mutate Asan True ''asan'' (newConfig, CcModule staticLibCfi) = Some (config', CcModule c') \<and>
      sanitize c' = Some sz' \<and>
      getSanitizerBoolPtr sz' Asan = Some (Some True) \<and>
      Cfi (Sanitize (Properties sz')) = None)"
proof -
  have h1: "Asan \<in> {Asan, Hwasan, Fuzzer}" by simp
  have h2: "sanitize staticLibCfi = Some (set_Sanitize (\<lambda>s. s\<lparr>Cfi := Some True\<rparr>) zeroSanitize)"
    by (simp add: staticLibCfi_def zeroModule_def)
  have h3: "variationName Asan = Some ''asan''" by (simp add: variationName_def)
  from Mutate_disables_cfi_on_device [OF h1 h2 h3, of True newConfig] h1 h2 h3
  show ?thesis by simp
qed


subsection \<open>The export of the aggregate to Make\<close>

lemma mapIndex_update:
  "mapIndex (AList.update k v al) k' = (if k' = k then v else mapIndex al k')"
  by (simp add: mapIndex_def update_conv')

lemma keys_update: "set (map fst (AList.update k v al)) = insert k (set (map fst al))"
  using dom_update [of k v al] by auto

lemma mapIndex_absent: "map_of m k = None \<Longrightarrow> mapIndex m k = []"
  by (simp add: mapIndex_def)

lemma represents_empty: "represents [] []"
  by (simp add: represents_def mapIndex_def archesOf_def libsOf_def)

lemma represents_add:
  assumes "represents (libsMap s) es"
  shows "represents (libsMap (add s c n)) (es @ [entry (c, n)])"
proof -
  let ?i = "ImageVariantType c" and ?a = "ArchTypeString c"
  let ?m = "if map_of (libsMap s) ?i = None then AList.update ?i [] (libsMap s) else libsMap s"
  have idx: "mapIndex ?m i = mapIndex (libsMap s) i" for i
    by (simp add: mapIndex_update mapIndex_absent)
  have keys: "set (map fst ?m) \<subseteq> insert ?i (set (map fst (libsMap s)))"
    by (auto simp: keys_update simp del: set_map)
  have dist: "distinct (map fst ?m)"
    using assms by (simp add: represents_def distinct_update)
  have lm: "libsMap (add s c n) =
      AList.update ?i (AList.update ?a (mapIndex (mapIndex ?m ?i) ?a @ [n]) (mapIndex ?m ?i)) ?m"
    by (simp add: add_def Let_def)
  show ?thesis
    unfolding represents_def lm
    using assms dist keys
    apply (simp only: idx)
    apply (auto simp: represents_def distinct_update keys_update mapIndex_update entry_def
        archesOf_def libsOf_def simp del: set_map)
    done
qed

lemma represents_addAll:
  "represents (libsMap s) es \<Longrightarrow> represents (libsMap (addAll s xs)) (es @ map entry xs)"
proof (induction xs arbitrary: s es)
  case Nil
  then show ?case by (simp add: addAll_def)
next
  case (Cons x xs)
  obtain c n where x: "x = (c, n)" by (cases x)
  from represents_add [OF Cons.prems, of c n]
  have "represents (libsMap (addAll (add s c n) xs)) ((es @ [entry (c, n)]) @ map entry xs)"
    by (rule Cons.IH)
  then show ?case by (simp add: addAll_def x)
qed

lemma sanitizerType_addAll: "sanitizerType (addAll s xs) = sanitizerType s"
  by (induction xs arbitrary: s) (auto simp: addAll_def add_def Let_def)

lemma sort_mset_cong: "mset xs = mset ys \<Longrightarrow> sort xs = sort (ys :: 'a :: linorder list)"
  by (rule properties_for_sort) simp_all

lemma sort_keys_cong:
  assumes "distinct xs" and "distinct ys" and "set xs = set ys"
  shows "sort xs = sort (ys :: 'a :: linorder list)"
  using assms by (intro sort_mset_cong) (simp add: set_eq_iff_mset_eq_distinct)

lemma represents_export:
  assumes r1: "represents (libsMap s1) es1" and r2: "represents (libsMap s2) es2"
    and es: "mset es1 = mset es2" and t: "sanitizerType s1 = sanitizerType s2"
  shows "exportToMake s1 = exportToMake s2"
proof -
  from es have set_es: "set es1 = set es2" by (rule mset_eq_setD)
  have keys: "SortedStringKeys (libsMap s1) = SortedStringKeys (libsMap s2)"
    unfolding SortedStringKeys_def
    using r1 r2 set_es by (intro sort_keys_cong) (simp_all add: represents_def)
  have akeys: "SortedStringKeys (mapIndex (libsMap s1) i) =
      SortedStringKeys (mapIndex (libsMap s2) i)" for i
    unfolding SortedStringKeys_def
    using r1 r2 set_es by (intro sort_keys_cong) (simp_all add: represents_def archesOf_def)
  have "mset (libsOf es1 i a) = mset (libsOf es2 i a)" for i a
    by (simp only: libsOf_def mset_map mset_filter es)
  then have libs: "sort (mapIndex (mapIndex (libsMap s1) i) a) =
      sort (mapIndex (mapIndex (libsMap s2) i) a)" for i a
    using r1 r2 by (intro sort_mset_cong) (simp add: represents_def)
  show ?thesis
    by (simp add: exportToMake_def keys akeys libs t Let_def)
qed

text \<open>
  C9, as stated: two aggregates that hold the same set of (image, architecture, library name)
  entries export the same key/value pairs. \<open>add\<close> appends and keeps a name it already holds:
  an aggregate to which one entry was added twice and one to which it was added once hold the
  same set of entries and export different values.
\<close>

theorem exportToMake_counterexample:
  "set (map entry [(vendorLib, ''libz''), (vendorLib, ''libz'')]) =
   set (map entry [(vendorLib, ''libz'')]) \<and>
   exportToMake (addAll (newSanitizerStaticLibsMap cfi)
     [(vendorLib, ''libz''), (vendorLib, ''libz'')]) =
     Some [(''SOONG_cfi_VENDOR_arm64_STATIC_LIBRARIES'', ''libz libz'')] \<and>
   exportToMake (addAll (newSanitizerStaticLibsMap cfi) [(vendorLib, ''libz'')]) =
     Some [(''SOONG_cfi_VENDOR_arm64_STATIC_LIBRARIES'', ''libz'')] \<and>
   exportToMake (addAll (newSanitizerStaticLibsMap cfi)
     [(vendorLib, ''libz''), (vendorLib, ''libz'')]) \<noteq>
   exportToMake (addAll (newSanitizerStaticLibsMap cfi) [(vendorLib, ''libz'')])"
  by (simp add: exportToMake_def addAll_def add_def newSanitizerStaticLibsMap_def
        vendorLib_def zeroModule_def mapIndex_def SortedStringKeys_def entry_def
        variationName_def SanitizerType_defs Let_def)

text \<open>
  C9, amended: two runs of \<open>add\<close> calls that record the same (image, architecture, library
  name) entries, each entry as often in one run as in the other, in any order, export the same
  key/value pairs to Make, in the same order.
\<close>

theorem exportToMake_deterministic:
  assumes "mset (map entry xs) = mset (map entry ys)"
  shows "exportToMake (addAll (newSanitizerStaticLibsMap t) xs) =
         exportToMake (addAll (newSanitizerStaticLibsMap t) ys)"
proof -
  have e: "represents (libsMap (newSanitizerStaticLibsMap t)) []"
    by (simp add: newSanitizerStaticLibsMap_def represents_empty)
  have x: "represents (libsMap (addAll (newSanitizerStaticLibsMap t) xs)) (map entry xs)"
    using represents_addAll [OF e, of xs] by simp
  have y: "represents (libsMap (addAll (newSanitizerStaticLibsMap t) ys)) (map entry ys)"
    using represents_addAll [OF e, of ys] by simp
  from x y assms show ?thesis
    by (rule represents_export) (simp add: sanitizerType_addAll)
qed

theorem exportToMake_deterministic_witness:
  "mset (map entry [(vendorLib, ''libz''), (coreLib, ''libc''), (vendorLib, ''libm'')]) =
   mset (map entry [(vendorLib, ''libm''), (vendorLib, ''libz''), (coreLib, ''libc'')]) \<and>
   exportToMake (addAll (newSanitizerStaticLibsMap cfi)
     [(vendorLib, ''libz''), (coreLib, ''libc''), (vendorLib, ''libm'')]) =
     Some [(''SOONG_cfi_CORE_arm64_STATIC_LIBRARIES'', ''libc''),
           (''SOONG_cfi_VENDOR_arm64_STATIC_LIBRARIES'', ''libm libz'')] \<and>
   exportToMake (addAll (newSanitizerStaticLibsMap cfi)
     [(vendorLib, ''libm''), (vendorLib, ''libz''), (coreLib, ''libc'')]) =
     Some [(''SOONG_cfi_CORE_arm64_STATIC_LIBRARIES'', ''libc''),
           (''SOONG_cfi_VENDOR_arm64_STATIC_LIBRARIES'', ''libm libz'')]"
proof -
  have h: "mset (map entry [(vendorLib, ''libz''), (coreLib, ''libc''), (vendorLib, ''libm'')]) =
      mset (map entry [(vendorLib, ''libm''), (vendorLib, ''libz''), (coreLib, ''libc'')])"
    by (simp add: entry_def)
  have v: "exportToMake (addAll (newSanitizerStaticLibsMap cfi)
      [(vendorLib, ''libz''), (coreLib, ''libc''), (vendorLib, ''libm'')]) =
      Some [(''SOONG_cfi_CORE_arm64_STATIC_LIBRARIES'', ''libc''),
            (''SOONG_cfi_VENDOR_arm64_STATIC_LIBRARIES'', ''libm libz'')]"
    by (simp add: exportToMake_def addAll_def add_def newSanitizerStaticLibsMap_def
          vendorLib_def coreLib_def zeroModule_def mapIndex_def SortedStringKeys_def
          variationName_def SanitizerType_defs Let_def)
  from exportToMake_deterministic [OF h, of cfi] h v show ?thesis by simp
qed


subsection \<open>Policy resolution\<close>

lemma ifFoundGlobal_globalSanitizers [simp]:
  "globalSanitizers (ifFoundGlobal nm u (setProps f) st) =
   filter (\<lambda>x. x \<noteq> nm) (globalSanitizers st)"
  by (simp add: ifFoundGlobal_def setProps_def removeFromList_def Let_def)

lemma ifFoundGlobal_errors [simp]:
  "errors (ifFoundGlobal nm u (setProps f) st) = errors st"
  by (simp add: ifFoundGlobal_def setProps_def Let_def)

lemma ifFoundGlobal_globalSanitizersDiag [simp]:
  "globalSanitizersDiag (ifFoundGlobal nm u (setProps f) st) = globalSanitizersDiag st"
  by (simp add: ifFoundGlobal_def setProps_def Let_def)

lemma ifFoundGlobal_field:
  "(\<And>s. F (f s) = F s) \<Longrightarrow> F (props (ifFoundGlobal nm u (setProps f) st)) = F (props st)"
  by (simp add: ifFoundGlobal_def setProps_def Let_def)

lemmas ifFoundGlobal_keeps [simp] =
  ifFoundGlobal_field [where F = Address] ifFoundGlobal_field [where F = Hwaddress]
  ifFoundGlobal_field [where F = Writeonly] ifFoundGlobal_field [where F = Scudo]

lemma ifFoundGlobal_Address [simp]:
  "Address (props (ifFoundGlobal nm u (setProps (\<lambda>s. s\<lparr>Address := v\<rparr>)) st)) =
   (if nm \<in> set (globalSanitizers st) \<and> u (props st) then v else Address (props st))"
  by (simp add: ifFoundGlobal_def setProps_def removeFromList_def Let_def)

lemma ifFoundGlobal_Hwaddress [simp]:
  "Hwaddress (props (ifFoundGlobal nm u (setProps (\<lambda>s. s\<lparr>Hwaddress := v\<rparr>)) st)) =
   (if nm \<in> set (globalSanitizers st) \<and> u (props st) then v else Hwaddress (props st))"
  by (simp add: ifFoundGlobal_def setProps_def removeFromList_def Let_def)

lemma ifFoundGlobal_Scudo [simp]:
  "Scudo (props (ifFoundGlobal nm u (setProps (\<lambda>s. s\<lparr>Scudo := v\<rparr>)) st)) =
   (if nm \<in> set (globalSanitizers st) \<and> u (props st) then v else Scudo (props st))"
  by (simp add: ifFoundGlobal_def setProps_def removeFromList_def Let_def)

lemma globalModes_Address:
  "Address (props (begin_globalModes ctx st)) =
   (if ''address'' \<in> set (globalSanitizers st) \<and> Address (props st) = None then Some True
    else Address (props st))"
  by (simp add: begin_globalModes_def Let_def BoolPtr_def)

lemma globalModes_Hwaddress:
  "Hwaddress (props (begin_globalModes ctx st)) =
   (if ''hwaddress'' \<in> set (globalSanitizers st) \<and> Hwaddress (props st) = None then Some True
    else Hwaddress (props st))"
  by (simp add: begin_globalModes_def Let_def BoolPtr_def)

lemma globalModes_Scudo:
  "Scudo (props (begin_globalModes ctx st)) =
   (if ''scudo'' \<in> set (globalSanitizers st) \<and> Scudo (props st) = None then Some True
    else Scudo (props st))"
  by (simp add: begin_globalModes_def Let_def BoolPtr_def)

lemma globalModes_Writeonly:
  "Writeonly (props (begin_globalModes ctx st)) = Writeonly (props st)"
  by (simp add: begin_globalModes_def Let_def)

lemma globalModes_errors: "errors (begin_globalModes ctx st) = errors st"
  by (simp add: begin_globalModes_def Let_def)

lemma globalModes_writeonly_in:
  "''writeonly'' \<in> set (globalSanitizers (begin_globalModes ctx st)) \<longleftrightarrow>
   ''writeonly'' \<in> set (globalSanitizers st)"
  by (simp add: begin_globalModes_def Let_def)

lemma globalWriteonly_error:
  "WriteonlyWithoutAddress \<in> set (errors (begin_globalWriteonly st)) \<longleftrightarrow>
   WriteonlyWithoutAddress \<in> set (errors st) \<or>
   (''writeonly'' \<in> set (globalSanitizers st) \<and> Writeonly (props st) = None \<and>
    Address (props st) = None \<and> Hwaddress (props st) = None)"
  by (auto simp: begin_globalWriteonly_def ifFoundGlobal_def setProps_def ModuleErrorf_def
        removeFromList_def Let_def)

lemma globalWriteonly_Scudo:
  "Scudo (props (begin_globalWriteonly st)) = Scudo (props st)"
  by (simp add: begin_globalWriteonly_def ifFoundGlobal_def setProps_def ModuleErrorf_def Let_def)

lemma ifFoundGlobalDiag_errors [simp]:
  "errors (ifFoundGlobalDiag nm u (setProps f) st) = errors st"
  by (simp add: ifFoundGlobalDiag_def setProps_def Let_def)

lemma ifFoundGlobalDiag_field:
  "(\<And>s. F (f s) = F s) \<Longrightarrow> F (props (ifFoundGlobalDiag nm u (setProps f) st)) = F (props st)"
  by (simp add: ifFoundGlobalDiag_def setProps_def Let_def)

lemmas ifFoundGlobalDiag_keeps [simp] = ifFoundGlobalDiag_field [where F = Scudo]

lemma unknownGlobal_error [simp]:
  "WriteonlyWithoutAddress \<in> set (errors
     (case l of [] \<Rightarrow> st | g # x \<Rightarrow> ModuleErrorf (UnknownGlobalSanitizer g) st)) \<longleftrightarrow>
   WriteonlyWithoutAddress \<in> set (errors st)"
  by (cases l) (simp_all add: ModuleErrorf_def)

lemma unknownGlobalDiag_error [simp]:
  "WriteonlyWithoutAddress \<in> set (errors
     (case l of [] \<Rightarrow> st | g # x \<Rightarrow> ModuleErrorf (UnknownGlobalSanitizerDiag g) st)) \<longleftrightarrow>
   WriteonlyWithoutAddress \<in> set (errors st)"
  by (cases l) (simp_all add: ModuleErrorf_def)

lemma unknown_props [simp]:
  "props (case l of [] \<Rightarrow> st | g # x \<Rightarrow> ModuleErrorf (e g) st) = props st"
  by (cases l) (simp_all add: ModuleErrorf_def)

lemma globalRest_error:
  "WriteonlyWithoutAddress \<in> set (errors (begin_globalRest ctx st)) \<longleftrightarrow>
   WriteonlyWithoutAddress \<in> set (errors st)"
  by (simp add: begin_globalRest_def Let_def)

lemma globalRest_Scudo:
  "Scudo (props (begin_globalRest ctx st)) = Scudo (props st)"
  by (simp add: begin_globalRest_def Let_def)

lemma testBinary_fields:
  "Address (begin_testBinary ctx s) = Address s"
  "Hwaddress (begin_testBinary ctx s) = Hwaddress s"
  "Writeonly (begin_testBinary ctx s) = Writeonly s"
  "Scudo (begin_testBinary ctx s) = Scudo s"
  by (simp_all add: begin_testBinary_def Let_def)

lemma begin_global_error:
  "WriteonlyWithoutAddress \<in> set (errors (begin_global ctx s)) \<longleftrightarrow>
   ''writeonly'' \<in> set (globalSanitizersOf ctx) \<and> Writeonly s = None \<and>
   Address s = None \<and> ''address'' \<notin> set (globalSanitizersOf ctx) \<and>
   Hwaddress s = None \<and> ''hwaddress'' \<notin> set (globalSanitizersOf ctx)"
  by (auto simp: begin_global_def Let_def globalRest_error globalWriteonly_error
        globalModes_errors globalModes_writeonly_in globalModes_Writeonly globalModes_Address
        globalModes_Hwaddress)

lemma begin_global_Scudo:
  "Scudo (props (begin_global ctx s)) =
   (if ''scudo'' \<in> set (globalSanitizersOf ctx) \<and> Scudo s = None then Some True else Scudo s)"
  by (auto simp: begin_global_def Let_def globalRest_Scudo globalWriteonly_Scudo
        globalModes_Scudo)

lemma begin_pruned_errors: "errors (begin_pruned ctx s) = errors (begin_global ctx (begin_testBinary ctx s))"
  by (simp add: begin_pruned_def Let_def)

text \<open>
  C6, as stated: whenever the resolved options hold the write-only modifier and neither address
  nor hardware-address is enabled, \<^verbatim>\<open>begin\<close> reports an error, also when the modifier comes
  from the module's own declaration. A module that declares \<^verbatim>\<open>writeonly: true\<close> and nothing
  else, with no global sanitizers, passes \<^verbatim>\<open>begin\<close> with no error and keeps the modifier.
\<close>

theorem writeonly_error_counterexample:
  "fst (sanitize_begin linuxHost (set_Sanitize (\<lambda>s. s\<lparr>Writeonly := Some True\<rparr>) zeroSanitize)) = [] \<and>
   Bool (Writeonly (Sanitize (Properties (snd (sanitize_begin linuxHost
      (set_Sanitize (\<lambda>s. s\<lparr>Writeonly := Some True\<rparr>) zeroSanitize)))))) \<and>
   \<not> Bool (Address (Sanitize (Properties (snd (sanitize_begin linuxHost
      (set_Sanitize (\<lambda>s. s\<lparr>Writeonly := Some True\<rparr>) zeroSanitize)))))) \<and>
   \<not> Bool (Hwaddress (Sanitize (Properties (snd (sanitize_begin linuxHost
      (set_Sanitize (\<lambda>s. s\<lparr>Writeonly := Some True\<rparr>) zeroSanitize))))))"
  by code_simp

text \<open>
  C6, amended: \<^verbatim>\<open>begin\<close> reports the module error "writeonly modifier cannot be used without
  'address' or 'hwaddress'" exactly when the module does not opt out (no SDK use, \<open>Never\<close> not
  true), the global sanitizer list that applies to the module names \<open>writeonly\<close>, the module
  has not set \<open>Writeonly\<close> itself, and \<open>Address\<close> and \<open>Hwaddress\<close> are both unset: set neither by
  the module (to true or to false) nor by the global list.
\<close>

theorem writeonly_error_iff:
  "WriteonlyWithoutAddress \<in> set (fst (sanitize_begin ctx sz)) \<longleftrightarrow>
   \<not> useSdk ctx \<and> \<not> Bool (Never (Sanitize (Properties sz))) \<and>
   ''writeonly'' \<in> set (globalSanitizersOf ctx) \<and>
   Writeonly (Sanitize (Properties sz)) = None \<and>
   Address (Sanitize (Properties sz)) = None \<and> ''address'' \<notin> set (globalSanitizersOf ctx) \<and>
   Hwaddress (Sanitize (Properties sz)) = None \<and> ''hwaddress'' \<notin> set (globalSanitizersOf ctx)"
proof (cases "useSdk ctx \<or> Bool (Never (Sanitize (Properties sz)))")
  case True
  then show ?thesis
    by (auto simp: sanitize_begin_def set_Sanitize_def BoolPtr_def Bool_def)
next
  case False
  then have "fst (sanitize_begin ctx sz) = errors (begin_pruned ctx (Sanitize (Properties sz)))"
    by (simp add: sanitize_begin_def Let_def)
  with False show ?thesis
    by (simp add: begin_pruned_errors begin_global_error testBinary_fields)
qed

theorem writeonly_error_iff_witness:
  "fst (sanitize_begin (linuxHost\<lparr>SanitizeHost := [''writeonly'']\<rparr>) zeroSanitize) =
     [WriteonlyWithoutAddress] \<and>
   WriteonlyWithoutAddress \<in> set (fst (sanitize_begin (linuxHost\<lparr>SanitizeHost := [''writeonly'']\<rparr>) zeroSanitize))"
proof -
  have v: "fst (sanitize_begin (linuxHost\<lparr>SanitizeHost := [''writeonly'']\<rparr>) zeroSanitize) =
     [WriteonlyWithoutAddress]"
    by code_simp
  have "WriteonlyWithoutAddress \<in> set (fst (sanitize_begin (linuxHost\<lparr>SanitizeHost := [''writeonly'']\<rparr>) zeroSanitize))"
    using writeonly_error_iff [of "linuxHost\<lparr>SanitizeHost := [''writeonly'']\<rparr>" zeroSanitize]
    by (simp add: globalSanitizersOf_def linuxHost_def zero_defs Bool_def)
  with v show ?thesis by simp
qed

lemma phases_Scudo:
  "Scudo (begin_memtagPaths ctx s) = Scudo s"
  "Scudo (begin_overflowPaths ctx s) = Scudo s"
  "Scudo (begin_cfiPaths ctx s) = Scudo s"
  "Scudo (begin_arch ctx s) = Scudo s"
  "Scudo (begin_asanWins s) = Scudo s"
  "Scudo (begin_platform ctx s) = Scudo s"
  "Scudo (begin_linkage ctx s) = Scudo s"
  by (simp_all add: begin_memtagPaths_def begin_overflowPaths_def begin_cfiPaths_def
        begin_arch_def begin_asanWins_def begin_platform_def begin_linkage_def Let_def)

lemma begin_pruned_Scudo:
  "Scudo (props (begin_pruned ctx s)) =
   (if ''scudo'' \<in> set (globalSanitizersOf ctx) \<and> Scudo s = None then Some True else Scudo s)"
  by (simp add: begin_pruned_def Let_def phases_Scudo begin_global_Scudo testBinary_fields)

lemma begin_last_any:
  "anySanitizer s \<longleftrightarrow> anySanitizer (begin_last ctx s) \<or> (DisableScudo ctx \<and> Bool (Scudo s))"
  by (auto simp: begin_last_def anySanitizer_def Let_def Bool_def)

lemma sanitize_begin_result:
  assumes "\<not> useSdk ctx" and "\<not> Bool (Never (Sanitize (Properties sz)))"
  shows "Sanitize (Properties (snd (sanitize_begin ctx sz))) =
           begin_last ctx (props (begin_pruned ctx (Sanitize (Properties sz))))"
    and "SanitizerEnabled (Properties (snd (sanitize_begin ctx sz))) \<longleftrightarrow>
           SanitizerEnabled (Properties sz) \<or>
           (\<not> OsIsWindows ctx \<and> anySanitizer (props (begin_pruned ctx (Sanitize (Properties sz)))))"
  using assms by (simp_all add: sanitize_begin_def Let_def set_Sanitize_def)

text \<open>
  C5, as stated: after \<^verbatim>\<open>begin\<close>, \<open>SanitizerEnabled\<close> is true if and only if some checking mode
  remains enabled after all pruning, the Scudo rule included. With Scudo disabled globally, a
  module that requests Scudo alone ends with \<open>SanitizerEnabled\<close> true and no mode enabled: the
  status is computed at line 592, before the Scudo rule of line 599.
\<close>

theorem SanitizerEnabled_counterexample:
  "fst (sanitize_begin linuxHostNoScudo
      (set_Sanitize (\<lambda>s. s\<lparr>Scudo := Some True\<rparr>) zeroSanitize)) = [] \<and>
   SanitizerEnabled (Properties (snd (sanitize_begin linuxHostNoScudo
      (set_Sanitize (\<lambda>s. s\<lparr>Scudo := Some True\<rparr>) zeroSanitize)))) \<and>
   \<not> anySanitizer (Sanitize (Properties (snd (sanitize_begin linuxHostNoScudo
      (set_Sanitize (\<lambda>s. s\<lparr>Scudo := Some True\<rparr>) zeroSanitize)))))"
  by code_simp

text \<open>
  C5, amended: for a module that does not opt out and whose \<open>SanitizerEnabled\<close> was false
  before, \<open>SanitizerEnabled\<close> is true after \<^verbatim>\<open>begin\<close> if and only if the operating system is
  not Windows and either some checking mode remains enabled after all pruning, or Scudo is
  disabled globally and Scudo was requested, by the module or by the global list.
\<close>

theorem SanitizerEnabled_iff:
  assumes "\<not> useSdk ctx" and "\<not> Bool (Never (Sanitize (Properties sz)))"
    and "\<not> SanitizerEnabled (Properties sz)"
  shows "SanitizerEnabled (Properties (snd (sanitize_begin ctx sz))) \<longleftrightarrow>
           \<not> OsIsWindows ctx \<and>
           (anySanitizer (Sanitize (Properties (snd (sanitize_begin ctx sz)))) \<or>
            (DisableScudo ctx \<and>
             (Bool (Scudo (Sanitize (Properties sz))) \<or>
              (Scudo (Sanitize (Properties sz)) = None \<and>
               ''scudo'' \<in> set (globalSanitizersOf ctx)))))"
proof -
  let ?p = "props (begin_pruned ctx (Sanitize (Properties sz)))"
  have "Bool (Scudo ?p) \<longleftrightarrow>
      Bool (Scudo (Sanitize (Properties sz))) \<or>
      (Scudo (Sanitize (Properties sz)) = None \<and> ''scudo'' \<in> set (globalSanitizersOf ctx))"
    by (auto simp: begin_pruned_Scudo Bool_def)
  with begin_last_any [of ?p ctx] sanitize_begin_result [OF assms(1,2)] assms(3)
  show ?thesis by simp
qed

theorem SanitizerEnabled_iff_witness:
  "\<not> useSdk linuxHost \<and>
   \<not> Bool (Never (Sanitize (Properties (set_Sanitize (\<lambda>s. s\<lparr>Address := Some True\<rparr>) zeroSanitize)))) \<and>
   \<not> SanitizerEnabled (Properties (set_Sanitize (\<lambda>s. s\<lparr>Address := Some True\<rparr>) zeroSanitize)) \<and>
   \<not> OsIsWindows linuxHost \<and>
   anySanitizer (Sanitize (Properties (snd (sanitize_begin linuxHost
      (set_Sanitize (\<lambda>s. s\<lparr>Address := Some True\<rparr>) zeroSanitize))))) \<and>
   SanitizerEnabled (Properties (snd (sanitize_begin linuxHost
      (set_Sanitize (\<lambda>s. s\<lparr>Address := Some True\<rparr>) zeroSanitize))))"
proof -
  let ?sz = "set_Sanitize (\<lambda>s. s\<lparr>Address := Some True\<rparr>) zeroSanitize"
  have h1: "\<not> useSdk linuxHost" by code_simp
  have h2: "\<not> Bool (Never (Sanitize (Properties ?sz)))"
    by code_simp
  have h3: "\<not> SanitizerEnabled (Properties ?sz)"
    by code_simp
  have w: "\<not> OsIsWindows linuxHost" by code_simp
  have v: "anySanitizer (Sanitize (Properties (snd (sanitize_begin linuxHost ?sz))))"
    by code_simp
  from SanitizerEnabled_iff [OF h1 h2 h3] h1 h2 h3 w v show ?thesis by blast
qed

lemma asanWins_establishes: "addressWins (begin_asanWins s)"
  by (simp add: addressWins_def begin_asanWins_def Bool_def)

lemma platform_addressWins: "addressWins s \<Longrightarrow> addressWins (begin_platform ctx s)"
  by (simp add: addressWins_def begin_platform_def Let_def)

lemma linkage_addressWins: "addressWins s \<Longrightarrow> addressWins (begin_linkage ctx s)"
  by (auto simp: addressWins_def begin_linkage_def Let_def Bool_def)

lemma last_addressWins: "addressWins s \<Longrightarrow> addressWins (begin_last ctx s)"
  by (auto simp: addressWins_def begin_last_def Let_def Bool_def)

lemma begin_pruned_addressWins: "addressWins (props (begin_pruned ctx s))"
  by (simp add: begin_pruned_def Let_def linkage_addressWins platform_addressWins
        asanWins_establishes)

lemma begin_last_exclusive:
  "(Bool (Hwaddress (begin_last ctx s)) \<longrightarrow>
      Address (begin_last ctx s) = None \<and> Thread (begin_last ctx s) = None) \<and>
   (Bool (Fuzzer_prop (begin_last ctx s)) \<longrightarrow> Cfi (begin_last ctx s) = None) \<and>
   (Bool (Address (begin_last ctx s)) \<or> Bool (Thread (begin_last ctx s)) \<or>
    Bool (Hwaddress (begin_last ctx s)) \<longrightarrow> Scudo (begin_last ctx s) = None)"
  by (auto simp: begin_last_def Let_def Bool_def)

text \<open>
  C4, as stated: for every module and every input policy, after \<^verbatim>\<open>begin\<close> completes without
  error no two incompatible modes are both enabled. For a module that opts out (\<open>Never\<close>)
  \<^verbatim>\<open>begin\<close> returns at once, without error, and leaves address and hardware-address both
  enabled in the properties.
\<close>

theorem begin_mutual_exclusion_counterexample:
  "fst (sanitize_begin arm64Device (set_Sanitize
      (\<lambda>s. s\<lparr>Never := Some True, Address := Some True, Hwaddress := Some True\<rparr>) zeroSanitize)) = [] \<and>
   Bool (Hwaddress (Sanitize (Properties (snd (sanitize_begin arm64Device (set_Sanitize
      (\<lambda>s. s\<lparr>Never := Some True, Address := Some True, Hwaddress := Some True\<rparr>) zeroSanitize)))))) \<and>
   Bool (Address (Sanitize (Properties (snd (sanitize_begin arm64Device (set_Sanitize
      (\<lambda>s. s\<lparr>Never := Some True, Address := Some True, Hwaddress := Some True\<rparr>) zeroSanitize))))))"
  by code_simp

text \<open>
  C4, amended: for every module that does not opt out (no SDK use, \<open>Never\<close> not true), after
  \<^verbatim>\<open>begin\<close>, with or without reported errors: hardware-address enabled implies address and
  thread unset; address or hardware-address enabled implies control-flow-integrity,
  memory-tag-heap and memory-tag-stack unset; fuzzer enabled implies control-flow-integrity
  unset; address, thread or hardware-address enabled implies Scudo unset.
\<close>

theorem begin_mutual_exclusion:
  assumes "\<not> useSdk ctx" and "\<not> Bool (Never (Sanitize (Properties sz)))"
  shows "(Bool (Hwaddress (Sanitize (Properties (snd (sanitize_begin ctx sz))))) \<longrightarrow>
            Address (Sanitize (Properties (snd (sanitize_begin ctx sz)))) = None \<and>
            Thread (Sanitize (Properties (snd (sanitize_begin ctx sz)))) = None) \<and>
         (Bool (Address (Sanitize (Properties (snd (sanitize_begin ctx sz))))) \<or>
          Bool (Hwaddress (Sanitize (Properties (snd (sanitize_begin ctx sz))))) \<longrightarrow>
            Cfi (Sanitize (Properties (snd (sanitize_begin ctx sz)))) = None \<and>
            Memtag_heap_prop (Sanitize (Properties (snd (sanitize_begin ctx sz)))) = None \<and>
            Memtag_stack_prop (Sanitize (Properties (snd (sanitize_begin ctx sz)))) = None) \<and>
         (Bool (Fuzzer_prop (Sanitize (Properties (snd (sanitize_begin ctx sz))))) \<longrightarrow>
            Cfi (Sanitize (Properties (snd (sanitize_begin ctx sz)))) = None) \<and>
         (Bool (Address (Sanitize (Properties (snd (sanitize_begin ctx sz))))) \<or>
          Bool (Thread (Sanitize (Properties (snd (sanitize_begin ctx sz))))) \<or>
          Bool (Hwaddress (Sanitize (Properties (snd (sanitize_begin ctx sz))))) \<longrightarrow>
            Scudo (Sanitize (Properties (snd (sanitize_begin ctx sz)))) = None)"
proof -
  let ?p = "props (begin_pruned ctx (Sanitize (Properties sz)))"
  have r: "Sanitize (Properties (snd (sanitize_begin ctx sz))) = begin_last ctx ?p"
    using assms by (rule sanitize_begin_result)
  have "addressWins (begin_last ctx ?p)"
    by (rule last_addressWins) (rule begin_pruned_addressWins)
  with begin_last_exclusive [of ctx ?p] show ?thesis
    unfolding r addressWins_def by blast
qed

theorem begin_mutual_exclusion_witness:
  "\<not> useSdk arm64Device \<and>
   \<not> Bool (Never (Sanitize (Properties (set_Sanitize
      (\<lambda>s. s\<lparr>Address := Some True, Hwaddress := Some True, Cfi := Some True\<rparr>) zeroSanitize)))) \<and>
   Bool (Hwaddress (Sanitize (Properties (snd (sanitize_begin arm64Device (set_Sanitize
      (\<lambda>s. s\<lparr>Address := Some True, Hwaddress := Some True, Cfi := Some True\<rparr>) zeroSanitize)))))) \<and>
   Address (Sanitize (Properties (snd (sanitize_begin arm64Device (set_Sanitize
      (\<lambda>s. s\<lparr>Address := Some True, Hwaddress := Some True, Cfi := Some True\<rparr>) zeroSanitize))))) = None \<and>
   Cfi (Sanitize (Properties (snd (sanitize_begin arm64Device (set_Sanitize
      (\<lambda>s. s\<lparr>Address := Some True, Hwaddress := Some True, Cfi := Some True\<rparr>) zeroSanitize))))) = None"
proof -
  let ?sz = "set_Sanitize
      (\<lambda>s. s\<lparr>Address := Some True, Hwaddress := Some True, Cfi := Some True\<rparr>) zeroSanitize"
  have h1: "\<not> useSdk arm64Device" by code_simp
  have h2: "\<not> Bool (Never (Sanitize (Properties ?sz)))"
    by code_simp
  have v: "Bool (Hwaddress (Sanitize (Properties (snd (sanitize_begin arm64Device ?sz)))))"
    by code_simp
  from begin_mutual_exclusion [OF h1 h2] h1 h2 v show ?thesis by blast
qed


end
